theory Spec2Isabelle
  imports Main
begin

section \<open>The capture monitor of the TRex console (trex\_capture.py)\<close>

text \<open>
  The module is effectful Python: it talks to a server over RPC, to the operating system
  (a named pipe), to a logger, to a lock shared with the console thread and to one worker
  thread. The embedding makes every effect explicit:
  \<^item> the objects (\<open>CaptureMonitorWriterPipe\<close>, \<open>CaptureMonitor\<close>, \<open>CaptureManager\<close>) are
    records, passed in and returned updated;
  \<^item> everything outside the module is a \<open>world\<close>: the files that exist, whether the worker
    holds the command lock, and the trace of calls made so far (newest first);
  \<^item> what the outside answers (an RPC result, an OS error, a value of the \<open>active\<close> flag
    written by the other thread) is an input of the function that asks, bundled in an
    environment record with one field for each call site;
  \<^item> a Python exception is the outcome \<open>Raise\<close>, and a call that does not come back
    (a \<open>join\<close> on a stuck worker, \<open>os.open\<close> on a pipe nobody reads) is \<open>Hang\<close>.
\<close>

subsection \<open>Exceptions and outcomes\<close>

datatype exn =
    STLError string
  | OSError string
  | KeyboardInterrupt
  | AttributeError string
  | OtherException string

text \<open>\<open>except Exception\<close> catches every class but \<open>KeyboardInterrupt\<close>, which derives
  from \<open>BaseException\<close>.\<close>

fun is_Exception :: "exn \<Rightarrow> bool" where
  "is_Exception KeyboardInterrupt = False"
| "is_Exception _ = True"

fun is_STLError :: "exn \<Rightarrow> bool" where
  "is_STLError (STLError _) = True"
| "is_STLError _ = False"

fun is_OSError :: "exn \<Rightarrow> bool" where
  "is_OSError (OSError _) = True"
| "is_OSError _ = False"

fun str_exn :: "exn \<Rightarrow> string" where
  "str_exn (STLError s) = s"
| "str_exn (OSError s) = s"
| "str_exn KeyboardInterrupt = []"
| "str_exn (AttributeError s) = s"
| "str_exn (OtherException s) = s"

datatype 'a outcome = Return 'a | Raise exn | Hang

subsection \<open>The world outside the module\<close>

type_synonym bytes = string
type_synonym capture_id = nat
type_synonym timestamp = int

text \<open>A captured packet as the fetch RPC delivers it. The timestamp is only handed on to
  the formatter and to the PCAP writer, so it is an opaque number here.\<close>

record pkt =
  pkt_binary :: string
  pkt_index :: nat
  pkt_port :: nat
  pkt_origin :: string
  pkt_ts :: timestamp

text \<open>The entries of \<open>poll.poll(0)\<close>: file descriptor and event mask.\<close>

type_synonym pollev = "nat \<times> nat"

datatype event =
    Logger_pre_cmd string
  | Logger_post_cmd bool
  | Logger_log string
  | Logger_prompt_redraw
  | Os_mkfifo string
  | Os_open string
  | Os_close nat
  | Os_unlink string
  | Pcap_open string
  | Pcap_write_header
  | Pcap_write_packet bytes
  | Poll_register nat
  | Poll_poll nat
  | Rpc_start_capture "nat list" "nat list" nat
  | Rpc_is_connected
  | Rpc_get_capture_status
  | Rpc_stop_capture "capture_id option"
  | Rpc_remove_all_captures
  | Rpc_fetch "capture_id option" nat
  | Thread_start nat
  | Thread_end nat
  | Lock_acquire
  | Lock_release
  | Call_handle_pkts nat
  | Call_deinit
  | Call_stop

record world =
  trace :: "event list"
  files :: "string list"
  lock_held :: bool
  next_tid :: nat

definition log :: "event \<Rightarrow> world \<Rightarrow> world" where
  "log ev w = w\<lparr>trace := ev # trace w\<rparr>"

text \<open>The decoding capabilities the writers call (Python's \<open>base64.b64decode\<close>, scapy's
  \<open>Ether\<close>, \<open>command\<close> and \<open>show\<close>, the PCAP writer's \<open>_write_packet\<close>): external code,
  taken as parameters. Each may raise.\<close>

record io =
  b64decode :: "string \<Rightarrow> exn + bytes"
  Ether :: "bytes \<Rightarrow> exn option"
  show_scapy :: "bool \<Rightarrow> bytes \<Rightarrow> exn option"
  write_packet :: "pkt \<Rightarrow> exn option"

subsection \<open>CaptureMonitorWriterStdout\<close>

text \<open>\<open>__handle_pkt\<close>: decode, print the two header lines, print the packet (brief or
  full), return the decoded length.\<close>

definition stdout_handle_pkt :: "io \<Rightarrow> bool \<Rightarrow> pkt \<Rightarrow> world \<Rightarrow> int outcome \<times> world" where
  "stdout_handle_pkt env is_brief p w =
     (case b64decode env (pkt_binary p) of
        Inl e \<Rightarrow> (Raise e, w)
      | Inr pkt_bin \<Rightarrow>
          (case Ether env pkt_bin of
             Some e \<Rightarrow> (Raise e, w)
           | None \<Rightarrow>
               (let w1 = log (Logger_log ''Type'') (log (Logger_log ''Port'') w) in
                case show_scapy env is_brief pkt_bin of
                  Some e \<Rightarrow> (Raise e, w1)
                | None \<Rightarrow> (Return (int (length pkt_bin)), log (Logger_log []) w1))))"

fun stdout_pkts_loop :: "io \<Rightarrow> bool \<Rightarrow> pkt list \<Rightarrow> int \<Rightarrow> world \<Rightarrow> int outcome \<times> world" where
  "stdout_pkts_loop env is_brief [] byte_count w = (Return byte_count, w)"
| "stdout_pkts_loop env is_brief (p # ps) byte_count w =
     (case stdout_handle_pkt env is_brief p w of
        (Return n, w1) \<Rightarrow> stdout_pkts_loop env is_brief ps (byte_count + n) w1
      | (Raise e, w1) \<Rightarrow> (Raise e, w1)
      | (Hang, w1) \<Rightarrow> (Hang, w1))"

text \<open>\<open>handle_pkts\<close>: the loop inside \<open>try\<close>, the prompt redrawn in \<open>finally\<close>.\<close>

definition stdout_handle_pkts :: "io \<Rightarrow> bool \<Rightarrow> pkt list \<Rightarrow> world \<Rightarrow> int outcome \<times> world" where
  "stdout_handle_pkts env is_brief pkts w =
     (case stdout_pkts_loop env is_brief pkts 0 (log (Call_handle_pkts (length pkts)) w) of
        (r, w1) \<Rightarrow> (r, log Logger_prompt_redraw w1))"

subsection \<open>CaptureMonitorWriterPipe\<close>

record pipe =
  fifo :: "nat option"
  fifo_name :: "string option"
  is_init :: bool

text \<open>What the operating system answers to \<open>deinit\<close>: \<open>os.close\<close> and \<open>os.unlink\<close> fail
  with \<open>OSError\<close> only (the text of the error, if any).\<close>

record deinit_env =
  os_close :: "string option"
  os_unlink :: "string option"

text \<open>\<open>deinit\<close>: one \<open>try\<close> around both steps, \<open>except OSError: pass\<close>. A file descriptor
  0 and an empty name are false in Python's \<open>if\<close>.\<close>

definition pipe_deinit :: "deinit_env \<Rightarrow> pipe \<Rightarrow> world \<Rightarrow> pipe \<times> world" where
  "pipe_deinit env p w =
     (let w0 = log Call_deinit w;
          (closed, p1, w1) =
            (case fifo p of
               None \<Rightarrow> (True, p, w0)
             | Some fd \<Rightarrow>
                 if fd = 0 then (True, p, w0)
                 else (case os_close env of
                         Some err \<Rightarrow> (False, p, log (Os_close fd) w0)
                       | None \<Rightarrow> (True, p\<lparr>fifo := None\<rparr>, log (Os_close fd) w0)))
      in if \<not> closed then (p1, w1)
         else (case fifo_name p1 of
                 None \<Rightarrow> (p1, w1)
               | Some name \<Rightarrow>
                   if name = [] then (p1, w1)
                   else (case os_unlink env of
                           Some err \<Rightarrow> (p1, log (Os_unlink name) w1)
                         | None \<Rightarrow>
                             (p1\<lparr>fifo_name := None\<rparr>,
                              (log (Os_unlink name) w1)\<lparr>files := removeAll name (files w1)\<rparr>))))"

text \<open>What the outside answers to the constructor, step by step. \<open>os.open\<close> on the pipe
  blocks until a reader attaches, so it may hang.\<close>

record pipe_env =
  mktemp :: string
  mkfifo :: "exn option"
  os_open :: "nat outcome"
  pcap_open :: "exn option"
  write_header :: "exn option"
  poll_create :: "exn option"
  poll_register :: "exn option"
  ctor_deinit :: deinit_env

text \<open>The body of the constructor's \<open>try\<close> block; \<open>self\<close> is returned as far as it got.\<close>

definition pipe_init_body :: "pipe_env \<Rightarrow> pipe \<Rightarrow> world \<Rightarrow> unit outcome \<times> pipe \<times> world" where
  "pipe_init_body env p w =
     (let name = mktemp env;
          w1 = log (Os_mkfifo name) (log (Logger_pre_cmd ''Starting pipe capture monitor'') w)
      in case mkfifo env of
           Some e \<Rightarrow> (Raise e, p, w1)
         | None \<Rightarrow>
            (let w2 = log (Os_open name)
                       (log (Logger_pre_cmd ''Waiting for Wireshark pipe connection'')
                         (log (Logger_log ''*** Please run wireshark ***'')
                           (log (Logger_post_cmd True) (w1\<lparr>files := name # files w1\<rparr>))))
             in case os_open env of
                  Hang \<Rightarrow> (Hang, p, w2)
                | Raise e \<Rightarrow> (Raise e, p, w2)
                | Return fd \<Rightarrow>
                   (let p1 = p\<lparr>fifo := Some fd\<rparr>;
                        w3 = log (Pcap_open name)
                              (log (Logger_log ''*** Capture monitoring started ***'')
                                (log (Logger_post_cmd True) w2))
                    in case pcap_open env of
                         Some e \<Rightarrow> (Raise e, p1, w3)
                       | None \<Rightarrow>
                          (let w4 = log Pcap_write_header w3
                           in case write_header env of
                                Some e \<Rightarrow> (Raise e, p1, w4)
                              | None \<Rightarrow>
                                 (case poll_create env of
                                    Some e \<Rightarrow> (Raise e, p1, w4)
                                  | None \<Rightarrow>
                                     (let w5 = log (Poll_register fd) w4
                                      in case poll_register env of
                                           Some e \<Rightarrow> (Raise e, p1, w5)
                                         | None \<Rightarrow> (Return (), p1\<lparr>is_init := True\<rparr>, w5)))))))"

text \<open>\<open>__init__\<close>: the fields, the \<open>try\<close> block, and the two handlers
  (\<open>except KeyboardInterrupt\<close>, \<open>except OSError\<close>). Any other exception passes through
  untouched. The message of the second handler formats \<open>self.fifo_name\<close> after
  \<open>deinit()\<close>, which has set it to \<open>None\<close> when the unlink went through.\<close>

definition CaptureMonitorWriterPipe_init :: "pipe_env \<Rightarrow> world \<Rightarrow> unit outcome \<times> pipe \<times> world" where
  "CaptureMonitorWriterPipe_init env w =
     (let p0 = \<lparr>fifo = None, fifo_name = Some (mktemp env), is_init = False\<rparr>
      in case pipe_init_body env p0 w of
           (Raise e, p, w1) \<Rightarrow>
             if e = KeyboardInterrupt then
               (let (p2, w2) = pipe_deinit (ctor_deinit env) p w1
                in (Raise (STLError ''*** pipe monitor aborted...cleaning up''), p2,
                    log (Logger_post_cmd False) w2))
             else if is_OSError e then
               (let (p2, w2) = pipe_deinit (ctor_deinit env) p w1
                in (Raise (STLError (''failed to create pipe ''
                                     @ (case fifo_name p2 of None \<Rightarrow> ''None'' | Some name \<Rightarrow> name)
                                     @ [CHR 0x0A] @ str_exn e)), p2,
                    log (Logger_post_cmd False) w2))
             else (Raise e, p, w1)
         | (r, p, w1) \<Rightarrow> (r, p, w1))"

text \<open>\<open>check_pipe\<close>: \<open>poll.poll(0)\<close>, and any entry in its answer is an error. The answer
  of the poll is an input.\<close>

definition check_pipe :: "pollev list \<Rightarrow> world \<Rightarrow> unit outcome \<times> world" where
  "check_pipe polled w =
     (if polled \<noteq> [] then (Raise (STLError ''pipe has been disconnected''), log (Poll_poll 0) w)
      else (Return (), log (Poll_poll 0) w))"

definition pipe_periodic_check :: "pollev list \<Rightarrow> world \<Rightarrow> unit outcome \<times> world" where
  "pipe_periodic_check polled w = check_pipe polled w"

text \<open>\<open>handle_pkts_internal\<close>: the decode is outside the \<open>try\<close>, only \<open>_write_packet\<close>
  is inside (\<open>except Exception\<close>).\<close>

fun handle_pkts_internal :: "io \<Rightarrow> pkt list \<Rightarrow> int \<Rightarrow> world \<Rightarrow> int outcome \<times> world" where
  "handle_pkts_internal env [] byte_count w = (Return byte_count, w)"
| "handle_pkts_internal env (p # ps) byte_count w =
     (case b64decode env (pkt_binary p) of
        Inl e \<Rightarrow> (Raise e, w)
      | Inr pkt_bin \<Rightarrow>
          (case write_packet env p of
             Some e \<Rightarrow>
               (if is_Exception e
                then Raise (STLError (''fail to write packets to pipe: '' @ str_exn e))
                else Raise e,
                log (Pcap_write_packet pkt_bin) w)
           | None \<Rightarrow>
               handle_pkts_internal env ps (byte_count + int (length pkt_bin))
                 (log (Pcap_write_packet pkt_bin) w)))"

definition pipe_handle_pkts :: "io \<Rightarrow> pollev list \<Rightarrow> pkt list \<Rightarrow> world \<Rightarrow> int outcome \<times> world" where
  "pipe_handle_pkts env polled pkts w =
     (case check_pipe polled (log (Call_handle_pkts (length pkts)) w) of
        (Return u, w1) \<Rightarrow> handle_pkts_internal env pkts 0 w1
      | (Raise e, w1) \<Rightarrow> (Raise e, w1)
      | (Hang, w1) \<Rightarrow> (Hang, w1))"

subsection \<open>The writer a monitor owns\<close>

text \<open>The two classes \<open>__start\<close> instantiates; the method call dispatches on the class.\<close>

datatype writer = Stdout bool | Pipe pipe

fun writer_handle_pkts :: "io \<Rightarrow> writer \<Rightarrow> pollev list \<Rightarrow> pkt list \<Rightarrow> world \<Rightarrow> int outcome \<times> world" where
  "writer_handle_pkts env (Stdout is_brief) polled pkts w =
     stdout_handle_pkts env is_brief pkts w"
| "writer_handle_pkts env (Pipe p) polled pkts w =
     pipe_handle_pkts env polled pkts w"

fun writer_periodic_check :: "writer \<Rightarrow> pollev list \<Rightarrow> world \<Rightarrow> unit outcome \<times> world" where
  "writer_periodic_check (Stdout is_brief) polled w = (Return (), w)"
| "writer_periodic_check (Pipe p) polled w = pipe_periodic_check polled w"

fun writer_deinit :: "deinit_env \<Rightarrow> writer \<Rightarrow> world \<Rightarrow> writer \<times> world" where
  "writer_deinit env (Stdout is_brief) w = (Stdout is_brief, log Call_deinit w)"
| "writer_deinit env (Pipe p) w =
     (case pipe_deinit env p w of (p1, w1) \<Rightarrow> (Pipe p1, w1))"

subsection \<open>Worker threads\<close>

text \<open>A thread is alive from its \<open>Thread_start\<close> to its \<open>Thread_end\<close>; the threads alive
  after a trace (newest event first) are read off the trace.\<close>

definition thread_step :: "event \<Rightarrow> nat list \<Rightarrow> nat list" where
  "thread_step ev alive =
     (case ev of
        Thread_start tid \<Rightarrow> tid # alive
      | Thread_end tid \<Rightarrow> removeAll tid alive
      | _ \<Rightarrow> alive)"

definition live_threads :: "event list \<Rightarrow> nat list" where
  "live_threads tr = foldr thread_step tr []"

text \<open>\<open>t.is_alive()\<close>. A worker ends on its own when its loop raises; \<open>exited\<close> says
  whether that has happened by the time of the call, and the end is then recorded.\<close>

definition is_alive :: "bool \<Rightarrow> nat \<Rightarrow> world \<Rightarrow> bool \<times> world" where
  "is_alive exited tid w =
     (if tid \<in> set (live_threads (trace w))
      then (if exited then (False, log (Thread_end tid) w) else (True, w))
      else (False, w))"

subsection \<open>CaptureMonitor\<close>

text \<open>An attribute that has not been assigned yet (\<open>active\<close>, \<open>start_ts\<close>, \<open>pkt_count\<close>,
  \<open>byte_count\<close>) is \<open>None\<close>, as is an attribute holding Python's \<open>None\<close>.\<close>

record monitor =
  m_t :: "nat option"
  m_writer :: "writer option"
  m_capture_id :: "capture_id option"
  m_start_ts :: "timestamp option"
  m_active :: "bool option"
  m_pkt_count :: "int option"
  m_byte_count :: "int option"
  m_tx_port_list :: "nat list"
  m_rx_port_list :: "nat list"
  m_rate_pps :: nat
  m_mon_type :: string

record start_env =
  start_capture :: "(capture_id \<times> timestamp) outcome"
  start_pipe :: pipe_env
  thread_start :: "exn option"

text \<open>The writer \<open>__start\<close> constructs for a monitor type. The constructor of the stdout
  writer only logs.\<close>

definition CaptureMonitorWriterStdout_init :: "bool \<Rightarrow> world \<Rightarrow> world" where
  "CaptureMonitorWriterStdout_init is_brief w =
     log (Logger_log ''*** use capture monitor stop to abort capturing... ***'')
       (log (Logger_post_cmd True)
         (log (Logger_pre_cmd (''Starting stdout capture monitor - verbose: ''
                                @ (if is_brief then ''low'' else ''high''))) w))"

definition create_writer :: "start_env \<Rightarrow> string \<Rightarrow> world \<Rightarrow> writer outcome \<times> world" where
  "create_writer env mon_type w =
     (if mon_type = ''compact'' then (Return (Stdout True), CaptureMonitorWriterStdout_init True w)
      else if mon_type = ''verbose'' then (Return (Stdout False), CaptureMonitorWriterStdout_init False w)
      else if mon_type = ''pipe'' then
        (case CaptureMonitorWriterPipe_init (start_pipe env) w of
           (Return u, p, w1) \<Rightarrow> (Return (Pipe p), w1)
         | (Raise e, p, w1) \<Rightarrow> (Raise e, w1)
         | (Hang, p, w1) \<Rightarrow> (Hang, w1))
      else (Raise (STLError ''Internal error: unknown writer type''), w))"

text \<open>\<open>__start\<close>: the start-session RPC, the writer, the thread.\<close>

definition CaptureMonitor_start :: "start_env \<Rightarrow> monitor \<Rightarrow> world \<Rightarrow> unit outcome \<times> monitor \<times> world" where
  "CaptureMonitor_start env m w =
     (let w1 = log (Rpc_start_capture (m_tx_port_list m) (m_rx_port_list m) (m_rate_pps m)) w
      in case start_capture env of
           Hang \<Rightarrow> (Hang, m, w1)
         | Raise e \<Rightarrow> (Raise e, m, w1)
         | Return (cid, ts) \<Rightarrow>
            (let m1 = m\<lparr>m_capture_id := Some cid, m_start_ts := Some ts\<rparr>
             in case create_writer env (m_mon_type m1) w1 of
                  (Hang, w2) \<Rightarrow> (Hang, m1, w2)
                | (Raise e, w2) \<Rightarrow> (Raise e, m1, w2)
                | (Return wr, w2) \<Rightarrow>
                   (let tid = next_tid w2;
                        m2 = m1\<lparr>m_writer := Some wr, m_t := Some tid, m_active := Some True\<rparr>;
                        w3 = w2\<lparr>next_tid := Suc tid\<rparr>
                    in case thread_start env of
                         Some e \<Rightarrow> (Raise e, m2, w3)
                       | None \<Rightarrow> (Return (), m2, log (Thread_start tid) w3))))"

text \<open>What the outside answers to \<open>__stop\<close>: whether the worker has ended by itself,
  whether \<open>join\<close> comes back, the OS calls of the writer's \<open>deinit\<close>, the state of the
  connection, and the two RPCs, each of which may answer, raise, or never answer.\<close>

record stop_env =
  worker_exited :: bool
  join_returns :: bool
  stop_deinit :: deinit_env
  stop_connected :: bool
  get_capture_status :: "capture_id list outcome"
  stop_capture :: "unit outcome"

text \<open>\<open>__stop\<close>, first block: \<open>if self.t and self.t.is_alive()\<close>. The three statements,
  the assignment \<open>self.t = None\<close> among them, are inside the \<open>if\<close>.\<close>

definition stop_thread :: "stop_env \<Rightarrow> monitor \<Rightarrow> world \<Rightarrow> unit outcome \<times> monitor \<times> world" where
  "stop_thread env m w =
     (case m_t m of
        None \<Rightarrow> (Return (), m, w)
      | Some tid \<Rightarrow>
          (case is_alive (worker_exited env) tid w of
             (False, w1) \<Rightarrow> (Return (), m, w1)
           | (True, w1) \<Rightarrow>
               if join_returns env
               then (Return (), m\<lparr>m_active := Some False, m_t := None\<rparr>, log (Thread_end tid) w1)
               else (Hang, m\<lparr>m_active := Some False\<rparr>, w1)))"

text \<open>Second block: \<open>if self.writer\<close>.\<close>

definition stop_writer :: "stop_env \<Rightarrow> monitor \<Rightarrow> world \<Rightarrow> monitor \<times> world" where
  "stop_writer env m w =
     (case m_writer m of
        None \<Rightarrow> (m, w)
      | Some wr \<Rightarrow> (case writer_deinit (stop_deinit env) wr w of (wr1, w1) \<Rightarrow> (m\<lparr>m_writer := None\<rparr>, w1)))"

text \<open>The rest: take the capture id, clear it, and clean up on the server when connected
  and when the id is among the server's captures. \<open>capture_id not in captures\<close> compares
  a possibly-\<open>None\<close> id with the ids of the list.\<close>

definition stop_remote :: "stop_env \<Rightarrow> monitor \<Rightarrow> world \<Rightarrow> unit outcome \<times> monitor \<times> world" where
  "stop_remote env m w =
     (let capture_id = m_capture_id m;
          m1 = m\<lparr>m_capture_id := None\<rparr>;
          w1 = log Rpc_is_connected w
      in if \<not> stop_connected env then (Return (), m1, w1)
         else (let w2 = log Rpc_get_capture_status w1
               in case get_capture_status env of
                    Hang \<Rightarrow> (Hang, m1, w2)
                  | Raise e \<Rightarrow> (Raise e, m1, w2)
                  | Return captures \<Rightarrow>
                      if capture_id \<notin> set (map Some captures) then (Return (), m1, w2)
                      else (stop_capture env, m1, log (Rpc_stop_capture capture_id) w2)))"

definition CaptureMonitor_stop_internal :: "stop_env \<Rightarrow> monitor \<Rightarrow> world \<Rightarrow> unit outcome \<times> monitor \<times> world" where
  "CaptureMonitor_stop_internal env m w =
     (case stop_thread env m (log Call_stop w) of
        (Return u, m1, w1) \<Rightarrow>
          (case stop_writer env m1 w1 of (m2, w2) \<Rightarrow> stop_remote env m2 w2)
      | (r, m1, w1) \<Rightarrow> (r, m1, w1))"

text \<open>\<open>stop\<close>, the user's call: \<open>__stop\<close> between two log lines.\<close>

definition CaptureMonitor_stop :: "stop_env \<Rightarrow> monitor \<Rightarrow> world \<Rightarrow> unit outcome \<times> monitor \<times> world" where
  "CaptureMonitor_stop env m w =
     (case CaptureMonitor_stop_internal env m (log (Logger_pre_cmd ''Stopping capture monitor'') w) of
        (Return u, m1, w1) \<Rightarrow> (Return (), m1, log (Logger_post_cmd True) w1)
      | (Raise e, m1, w1) \<Rightarrow>
          if is_Exception e then (Raise e, m1, log (Logger_post_cmd False) w1) else (Raise e, m1, w1)
      | (Hang, m1, w1) \<Rightarrow> (Hang, m1, w1))"

record init_env =
  init_start :: start_env
  init_stop :: stop_env

text \<open>\<open>__init__\<close>: the fields, then \<open>__start\<close> under \<open>except Exception\<close>, whose handler
  runs \<open>__stop\<close> and re-raises. The object is returned with the outcome also when the
  constructor raises, to see what is left behind.\<close>

definition new_monitor :: "nat list \<Rightarrow> nat list \<Rightarrow> nat \<Rightarrow> string \<Rightarrow> monitor" where
  "new_monitor tx_port_list rx_port_list rate_pps mon_type =
     \<lparr>m_t = None, m_writer = None, m_capture_id = None, m_start_ts = None,
      m_active = None, m_pkt_count = None, m_byte_count = None,
      m_tx_port_list = tx_port_list, m_rx_port_list = rx_port_list,
      m_rate_pps = rate_pps, m_mon_type = mon_type\<rparr>"

definition CaptureMonitor_init ::
    "init_env \<Rightarrow> nat list \<Rightarrow> nat list \<Rightarrow> nat \<Rightarrow> string \<Rightarrow> world \<Rightarrow> unit outcome \<times> monitor \<times> world" where
  "CaptureMonitor_init env tx_port_list rx_port_list rate_pps mon_type w =
     (let m0 = new_monitor tx_port_list rx_port_list rate_pps mon_type
      in case CaptureMonitor_start (init_start env) m0 w of
           (Raise e, m1, w1) \<Rightarrow>
             if is_Exception e then
               (case CaptureMonitor_stop_internal (init_stop env) m1 w1 of
                  (Return u, m2, w2) \<Rightarrow> (Raise e, m2, w2)
                | (r, m2, w2) \<Rightarrow> (r, m2, w2))
             else (Raise e, m1, w1)
         | (r, m1, w1) \<Rightarrow> (r, m1, w1))"

text \<open>\<open>get_mon_row\<close>. The list is built left to right: the id, then \<open>self.t.is_alive()\<close>,
  then the counters. The number formatting is the library's; the row keeps the numbers.\<close>

fun str_nat :: "nat \<Rightarrow> string" where
  "str_nat n = (if n < 10 then [''0123456789'' ! n] else str_nat (n div 10) @ [''0123456789'' ! (n mod 10)])"

fun join_strs :: "string \<Rightarrow> string list \<Rightarrow> string" where
  "join_strs sep [] = []"
| "join_strs sep [s] = s"
| "join_strs sep (s # ss) = s @ sep @ join_strs sep ss"

definition port_list_str :: "nat list \<Rightarrow> string" where
  "port_list_str ports = (if ports \<noteq> [] then join_strs '', '' (map str_nat ports) else ''-'')"

record mon_row =
  row_id :: "capture_id option"
  row_status :: string
  row_pkt_count :: int
  row_byte_count :: int
  row_tx :: string
  row_rx :: string

definition get_mon_row :: "bool \<Rightarrow> monitor \<Rightarrow> world \<Rightarrow> mon_row outcome \<times> world" where
  "get_mon_row exited m w =
     (case m_t m of
        None \<Rightarrow> (Raise (AttributeError ''NoneType object has no attribute is_alive''), w)
      | Some tid \<Rightarrow>
          (case is_alive exited tid w of
             (alive, w1) \<Rightarrow>
               (case m_pkt_count m of
                  None \<Rightarrow> (Raise (AttributeError ''CaptureMonitor object has no attribute pkt_count''), w1)
                | Some pkt_count \<Rightarrow>
                    (case m_byte_count m of
                       None \<Rightarrow> (Raise (AttributeError ''CaptureMonitor object has no attribute byte_count''), w1)
                     | Some byte_count \<Rightarrow>
                         (Return \<lparr>row_id = m_capture_id m,
                                  row_status = (if alive then ''ACTIVE'' else ''DEAD''),
                                  row_pkt_count = pkt_count,
                                  row_byte_count = byte_count,
                                  row_tx = port_list_str (m_tx_port_list m),
                                  row_rx = port_list_str (m_rx_port_list m)\<rparr>, w1)))))"

definition get_capture_id :: "monitor \<Rightarrow> capture_id option" where
  "get_capture_id m = m_capture_id m"

subsection \<open>The worker of a monitor\<close>

text \<open>The answer of the fetch RPC: an \<open>RC\<close> object, true when the call succeeded and then
  carrying the packets (\<open>rc.data()['pkts']\<close>), false otherwise.\<close>

datatype rc = RC_OK "pkt list" | RC_ERR string

text \<open>One attempt of \<open>__lock\<close>: \<open>acquire(False)\<close> succeeded, or it failed and \<open>self.active\<close>
  was then read with the given value.\<close>

datatype lock_try = Acquired | Busy bool

text \<open>What the outside answers during one turn of the worker's loop. The flag \<open>active\<close> is
  written by the thread that stops the monitor, so every read of it is an input:
  at the head of the loop, and at each of the five ticks of \<open>__sleep\<close>.\<close>

record iter_env =
  active_loop :: bool
  active_sleep :: "nat \<Rightarrow> bool"
  poll_periodic :: "pollev list"
  lock_tries :: "lock_try list"
  iter_connected :: bool
  transmit :: "rc outcome"
  poll_prewrite :: "pollev list"

text \<open>\<open>__sleep\<close>: five ticks, \<open>False\<close> as soon as the flag is seen down.\<close>

definition monitor_sleep :: "(nat \<Rightarrow> bool) \<Rightarrow> bool" where
  "monitor_sleep act = list_all act [0..<5]"

text \<open>\<open>__lock\<close>: try, give up when the monitor is no longer active, else wait and try
  again. While the lock stays busy and the monitor active, it does not return.\<close>

fun monitor_lock :: "lock_try list \<Rightarrow> world \<Rightarrow> bool outcome \<times> world" where
  "monitor_lock [] w = (Hang, w)"
| "monitor_lock (Acquired # tries) w = (Return True, (log Lock_acquire w)\<lparr>lock_held := True\<rparr>)"
| "monitor_lock (Busy act # tries) w = (if \<not> act then (Return False, w) else monitor_lock tries w)"

definition monitor_unlock :: "world \<Rightarrow> world" where
  "monitor_unlock w = (log Lock_release w)\<lparr>lock_held := False\<rparr>"

text \<open>The body of the \<open>try\<close> in the loop: the connectivity check and the fetch.\<close>

definition fetch :: "iter_env \<Rightarrow> monitor \<Rightarrow> world \<Rightarrow> pkt list outcome \<times> world" where
  "fetch env m w =
     (let w1 = log Rpc_is_connected w
      in if \<not> iter_connected env then (Raise (STLError ''client has been disconnected''), w1)
         else (let w2 = log (Rpc_fetch (m_capture_id m) 10) w1
               in case transmit env of
                    Hang \<Rightarrow> (Hang, w2)
                  | Raise e \<Rightarrow> (Raise e, w2)
                  | Return (RC_ERR msg) \<Rightarrow> (Raise (STLError msg), w2)
                  | Return (RC_OK pkts) \<Rightarrow> (Return pkts, w2)))"

text \<open>\<open>try: ... finally: self.__unlock()\<close>: the lock is released however the body ends;
  a fetch that never answers never reaches \<open>finally\<close>.\<close>

definition fetch_locked :: "iter_env \<Rightarrow> monitor \<Rightarrow> world \<Rightarrow> pkt list outcome \<times> world" where
  "fetch_locked env m w =
     (case fetch env m w of
        (Hang, w1) \<Rightarrow> (Hang, w1)
      | (r, w1) \<Rightarrow> (r, monitor_unlock w1))"

text \<open>The two \<open>+=\<close> on the counters after \<open>handle_pkts\<close> has returned.\<close>

definition add_counters :: "nat \<Rightarrow> int \<Rightarrow> monitor \<Rightarrow> unit outcome \<times> monitor" where
  "add_counters n byte_count m =
     (case m_pkt_count m of
        None \<Rightarrow> (Raise (AttributeError ''CaptureMonitor object has no attribute pkt_count''), m)
      | Some pc \<Rightarrow>
          (let m1 = m\<lparr>m_pkt_count := Some (pc + int n)\<rparr>
           in case m_byte_count m1 of
                None \<Rightarrow> (Raise (AttributeError ''CaptureMonitor object has no attribute byte_count''), m1)
              | Some bc \<Rightarrow> (Return (), m1\<lparr>m_byte_count := Some (bc + byte_count)\<rparr>)))"

text \<open>One turn of \<open>while self.active\<close>, after the test: \<open>Return True\<close> goes round again
  (also through \<open>continue\<close>), \<open>Return False\<close> is \<open>return\<close>.\<close>

definition loop_body :: "io \<Rightarrow> iter_env \<Rightarrow> monitor \<Rightarrow> world \<Rightarrow> bool outcome \<times> monitor \<times> world" where
  "loop_body dec env m w =
     (if \<not> monitor_sleep (active_sleep env) then (Return False, m, w)
      else case m_writer m of
        None \<Rightarrow> (Raise (AttributeError ''NoneType object has no attribute periodic_check''), m, w)
      | Some wr \<Rightarrow>
         (case writer_periodic_check wr (poll_periodic env) w of
            (Hang, w1) \<Rightarrow> (Hang, m, w1)
          | (Raise e, w1) \<Rightarrow> (Raise e, m, w1)
          | (Return u, w1) \<Rightarrow>
             (case monitor_lock (lock_tries env) w1 of
                (Hang, w2) \<Rightarrow> (Hang, m, w2)
              | (Raise e, w2) \<Rightarrow> (Raise e, m, w2)
              | (Return False, w2) \<Rightarrow> (Return False, m, w2)
              | (Return True, w2) \<Rightarrow>
                 (case fetch_locked env m w2 of
                    (Hang, w3) \<Rightarrow> (Hang, m, w3)
                  | (Raise e, w3) \<Rightarrow> (Raise e, m, w3)
                  | (Return pkts, w3) \<Rightarrow>
                     if pkts = [] then (Return True, m, w3)
                     else (case writer_handle_pkts dec wr (poll_prewrite env) pkts w3 of
                             (Hang, w4) \<Rightarrow> (Hang, m, w4)
                           | (Raise e, w4) \<Rightarrow> (Raise e, m, w4)
                           | (Return byte_count, w4) \<Rightarrow>
                               (case add_counters (length pkts) byte_count m of
                                  (Return u, m1) \<Rightarrow> (Return True, m1, w4)
                                | (Raise e, m1) \<Rightarrow> (Raise e, m1, w4)
                                | (Hang, m1) \<Rightarrow> (Hang, m1, w4)))))))"

text \<open>The loop over the turns the outside lets it take. \<open>Return ()\<close>: the loop has ended
  (the flag was down, or a \<open>return\<close>); \<open>Raise\<close>: a turn raised; \<open>Hang\<close>: the worker
  is still inside the loop after the last turn given.\<close>

fun main_loop :: "io \<Rightarrow> iter_env list \<Rightarrow> monitor \<Rightarrow> world \<Rightarrow> unit outcome \<times> monitor \<times> world" where
  "main_loop dec [] m w = (Hang, m, w)"
| "main_loop dec (env # envs) m w =
     (if \<not> active_loop env then (Return (), m, w)
      else case loop_body dec env m w of
             (Return True, m1, w1) \<Rightarrow> main_loop dec envs m1 w1
           | (Return False, m1, w1) \<Rightarrow> (Return (), m1, w1)
           | (Raise e, m1, w1) \<Rightarrow> (Raise e, m1, w1)
           | (Hang, m1, w1) \<Rightarrow> (Hang, m1, w1))"

text \<open>\<open>__thread_main_loop\<close>: the counters start at zero.\<close>

definition thread_main_loop :: "io \<Rightarrow> iter_env list \<Rightarrow> monitor \<Rightarrow> world \<Rightarrow> unit outcome \<times> monitor \<times> world" where
  "thread_main_loop dec envs m w =
     main_loop dec envs (m\<lparr>m_pkt_count := Some 0, m_byte_count := Some 0\<rparr>) w"

text \<open>\<open>__thread_cb\<close>: the thread's target. An \<open>STLError\<close> and any other \<open>Exception\<close> end
  the thread with a message each.\<close>

definition thread_cb :: "io \<Rightarrow> iter_env list \<Rightarrow> monitor \<Rightarrow> world \<Rightarrow> unit outcome \<times> monitor \<times> world" where
  "thread_cb dec envs m w =
     (case thread_main_loop dec envs m w of
        (Raise e, m1, w1) \<Rightarrow>
          if is_STLError e then
            (Return (), m1,
             log Logger_prompt_redraw
               (log (Logger_log ''*** monitor is inactive - please restart the monitor ***'')
                 (log (Logger_log (''Monitor has encountered the following error: '' @ str_exn e)) w1)))
          else if is_Exception e then
            (Return (), m1,
             log Logger_prompt_redraw
               (log (Logger_log ''*** monitor is inactive - please restart the monitor ***'')
                 (log (Logger_log (''*** A fatal internal error has occurred: '' @ str_exn e)) w1)))
          else (Raise e, m1, w1)
      | (r, m1, w1) \<Rightarrow> (r, m1, w1))"

subsection \<open>CaptureManager\<close>

record manager =
  mgr_monitor :: "monitor option"

record opts =
  opt_tx_port_list :: "nat list"
  opt_rx_port_list :: "nat list"
  opt_verbose :: bool
  opt_pipe :: bool

record cmd_env =
  cmd_stop :: stop_env
  cmd_init :: init_env
  cmd_remove_all :: "unit outcome"

text \<open>\<open>stop\<close>, and the same three lines at the head of \<open>parse_monitor_stop\<close>,
  \<open>parse_clear\<close> and (before the construction) \<open>parse_monitor_start\<close>:
  \<open>if self.monitor: self.monitor.stop(); self.monitor = None\<close>.\<close>

definition CaptureManager_stop :: "stop_env \<Rightarrow> manager \<Rightarrow> world \<Rightarrow> unit outcome \<times> manager \<times> world" where
  "CaptureManager_stop env mgr w =
     (case mgr_monitor mgr of
        None \<Rightarrow> (Return (), mgr, w)
      | Some m \<Rightarrow>
          (case CaptureMonitor_stop env m w of
             (Return u, m1, w1) \<Rightarrow> (Return (), mgr\<lparr>mgr_monitor := None\<rparr>, w1)
           | (r, m1, w1) \<Rightarrow> (r, mgr\<lparr>mgr_monitor := Some m1\<rparr>, w1)))"

definition parse_monitor_start :: "cmd_env \<Rightarrow> opts \<Rightarrow> manager \<Rightarrow> world \<Rightarrow> unit outcome \<times> manager \<times> world" where
  "parse_monitor_start env opt mgr w =
     (let mon_type = (if opt_verbose opt then ''verbose''
                      else if opt_pipe opt then ''pipe'' else ''compact'')
      in if opt_tx_port_list opt = [] \<and> opt_rx_port_list opt = []
         then (Return (), mgr, log (Logger_log ''please provide either --tx or --rx'') w)
         else (case CaptureManager_stop (cmd_stop env) mgr w of
                 (Return u, mgr1, w1) \<Rightarrow>
                   (case CaptureMonitor_init (cmd_init env) (opt_tx_port_list opt)
                           (opt_rx_port_list opt) 100 mon_type w1 of
                      (Return u, m, w2) \<Rightarrow> (Return (), mgr1\<lparr>mgr_monitor := Some m\<rparr>, w2)
                    | (r, m, w2) \<Rightarrow> (r, mgr1, w2))
               | (r, mgr1, w1) \<Rightarrow> (r, mgr1, w1)))"

definition parse_monitor_stop :: "cmd_env \<Rightarrow> manager \<Rightarrow> world \<Rightarrow> unit outcome \<times> manager \<times> world" where
  "parse_monitor_stop env mgr w = CaptureManager_stop (cmd_stop env) mgr w"

definition parse_clear :: "cmd_env \<Rightarrow> manager \<Rightarrow> world \<Rightarrow> unit outcome \<times> manager \<times> world" where
  "parse_clear env mgr w =
     (case CaptureManager_stop (cmd_stop env) mgr w of
        (Return u, mgr1, w1) \<Rightarrow>
          (cmd_remove_all env, mgr1, log Rpc_remove_all_captures w1)
      | (r, mgr1, w1) \<Rightarrow> (r, mgr1, w1))"

text \<open>The monitor commands of the console, and a session of them. A command that raises
  leaves the manager as it is at that point and the console goes on with the next command;
  a command that hangs is the last one.\<close>

datatype cmd = Monitor_start opts | Monitor_stop | Clear

fun run_cmd :: "cmd \<Rightarrow> cmd_env \<Rightarrow> manager \<Rightarrow> world \<Rightarrow> unit outcome \<times> manager \<times> world" where
  "run_cmd (Monitor_start opt) env mgr w = parse_monitor_start env opt mgr w"
| "run_cmd Monitor_stop env mgr w = parse_monitor_stop env mgr w"
| "run_cmd Clear env mgr w = parse_clear env mgr w"

fun run_cmds :: "(cmd \<times> cmd_env) list \<Rightarrow> manager \<Rightarrow> world \<Rightarrow> manager \<times> world" where
  "run_cmds [] mgr w = (mgr, w)"
| "run_cmds ((c, env) # rest) mgr w =
     (case run_cmd c env mgr w of
        (Hang, mgr1, w1) \<Rightarrow> (mgr1, w1)
      | (r, mgr1, w1) \<Rightarrow> run_cmds rest mgr1 w1)"

text \<open>At most one worker alive at every instant of a trace: at every suffix of the
  newest-first trace.\<close>

fun at_most_one_live :: "event list \<Rightarrow> bool" where
  "at_most_one_live [] = True"
| "at_most_one_live (ev # tr) = (length (live_threads (ev # tr)) \<le> 1 \<and> at_most_one_live tr)"

section \<open>Observations on traces, and sample inputs\<close>

text \<open>The world in which nothing has happened yet.\<close>

definition world0 :: world where
  "world0 = \<lparr>trace = [], files = [], lock_held = False, next_tid = 0\<rparr>"

text \<open>The lock events of a trace, newest first.\<close>

definition is_lock_event :: "event \<Rightarrow> bool" where
  "is_lock_event ev = (ev = Lock_acquire \<or> ev = Lock_release)"

definition lock_events :: "event list \<Rightarrow> event list" where
  "lock_events tr = filter is_lock_event tr"

text \<open>A decoder under which every packet decodes to its own text and every write
  succeeds, a console monitor in the state its worker finds it in, and a turn of the loop
  in which the lock is busy once and the fetch then fails.\<close>

definition plain_decoder :: io where
  "plain_decoder = \<lparr>b64decode = Inr, Ether = (\<lambda>bin. None),
                     show_scapy = (\<lambda>brief bin. None), write_packet = (\<lambda>p. None)\<rparr>"

definition console_monitor :: monitor where
  "console_monitor = \<lparr>m_t = Some 0, m_writer = Some (Stdout True), m_capture_id = Some 7,
     m_start_ts = Some 0, m_active = Some True, m_pkt_count = Some 0, m_byte_count = Some 0,
     m_tx_port_list = [0], m_rx_port_list = [1], m_rate_pps = 100, m_mon_type = ''compact''\<rparr>"

definition failing_fetch_turn :: iter_env where
  "failing_fetch_turn = \<lparr>active_loop = True, active_sleep = (\<lambda>tick. True), poll_periodic = [],
     lock_tries = [Busy True, Acquired], iter_connected = True,
     transmit = Raise (STLError ''RPC timeout''), poll_prewrite = []\<rparr>"

text \<open>The calls of \<open>handle_pkts\<close> in a trace.\<close>

definition is_handle_pkts_call :: "event \<Rightarrow> bool" where
  "is_handle_pkts_call ev = (case ev of Call_handle_pkts n \<Rightarrow> True | _ \<Rightarrow> False)"

definition handle_pkts_calls :: "event list \<Rightarrow> event list" where
  "handle_pkts_calls tr = filter is_handle_pkts_call tr"

text \<open>A turn of the loop in which the fetch RPC succeeds and delivers \<open>pkts\<close>: the sleep is
  not interrupted, the writer's check passes, the lock is acquired, the client is
  connected and the RPC answers with a good \<open>RC\<close>. What the check and \<open>__lock\<close> return
  does not depend on the world they run in, so they are read off in \<open>world0\<close>.\<close>

definition fetch_returns :: "iter_env \<Rightarrow> writer \<Rightarrow> pkt list \<Rightarrow> bool" where
  "fetch_returns env wr pkts =
     (monitor_sleep (active_sleep env) \<and>
      fst (writer_periodic_check wr (poll_periodic env) world0) = Return () \<and>
      fst (monitor_lock (lock_tries env) world0) = Return True \<and>
      iter_connected env \<and>
      transmit env = Return (RC_OK pkts))"

text \<open>A successful fetch cycle: the loop is entered, the fetch delivers \<open>pkts\<close>, and
  \<open>handle_pkts\<close>, called when there are packets, returns \<open>b\<close>. A cycle without packets
  counts no bytes.\<close>

definition cycle_succeeds :: "io \<Rightarrow> writer \<Rightarrow> iter_env \<Rightarrow> pkt list \<Rightarrow> int \<Rightarrow> bool" where
  "cycle_succeeds dec wr env pkts b =
     (active_loop env \<and> fetch_returns env wr pkts \<and>
      (if pkts = [] then b = 0
       else fst (writer_handle_pkts dec wr (poll_prewrite env) pkts world0) = Return b))"

text \<open>Sample packets and turns: a fetch that delivers three packets, and one that delivers
  none.\<close>

definition sample_pkt :: "nat \<Rightarrow> string \<Rightarrow> pkt" where
  "sample_pkt i bin = \<lparr>pkt_binary = bin, pkt_index = i, pkt_port = 1, pkt_origin = ''RX'', pkt_ts = 0\<rparr>"

definition three_pkts :: "pkt list" where
  "three_pkts = [sample_pkt 1 ''abcd'', sample_pkt 2 ''ef'', sample_pkt 3 ''ghijkl'']"

definition fetch_turn :: "pkt list \<Rightarrow> iter_env" where
  "fetch_turn pkts = \<lparr>active_loop = True, active_sleep = (\<lambda>tick. True), poll_periodic = [],
     lock_tries = [Acquired], iter_connected = True,
     transmit = Return (RC_OK pkts), poll_prewrite = []\<rparr>"

text \<open>The counters of the monitor after the worker has gone through the given turns.\<close>

definition pkt_count_after :: "io \<Rightarrow> iter_env list \<Rightarrow> monitor \<Rightarrow> world \<Rightarrow> int option" where
  "pkt_count_after dec envs m w = m_pkt_count (fst (snd (thread_main_loop dec envs m w)))"

definition byte_count_after :: "io \<Rightarrow> iter_env list \<Rightarrow> monitor \<Rightarrow> world \<Rightarrow> int option" where
  "byte_count_after dec envs m w = m_byte_count (fst (snd (thread_main_loop dec envs m w)))"

text \<open>What \<open>handle_pkts\<close> does with one packet of the batch. \<open>decoded_len\<close> is the length
  the packet counts for; \<open>pkt_ok\<close> says that the writer gets through the packet (the
  decode succeeds, and so do the console rendering or the write to the pipe);
  \<open>pkt_raises\<close> gives the exception a packet that fails is answered with: the
  decoder's or renderer's own exception, and for a failed write to the pipe the
  \<open>STLError\<close> that \<open>handle_pkts_internal\<close> makes of any \<open>Exception\<close>.\<close>

definition decoded_len :: "io \<Rightarrow> pkt \<Rightarrow> int" where
  "decoded_len dec p = (case b64decode dec (pkt_binary p) of Inl e \<Rightarrow> 0 | Inr bin \<Rightarrow> int (length bin))"

definition pkt_ok :: "io \<Rightarrow> writer \<Rightarrow> pkt \<Rightarrow> bool" where
  "pkt_ok dec wr p =
     (case b64decode dec (pkt_binary p) of
        Inl e \<Rightarrow> False
      | Inr bin \<Rightarrow>
          (case wr of
             Stdout is_brief \<Rightarrow> Ether dec bin = None \<and> show_scapy dec is_brief bin = None
           | Pipe pp \<Rightarrow> write_packet dec p = None))"

definition pkt_raises :: "io \<Rightarrow> writer \<Rightarrow> pkt \<Rightarrow> exn \<Rightarrow> bool" where
  "pkt_raises dec wr p e =
     (case b64decode dec (pkt_binary p) of
        Inl e1 \<Rightarrow> e = e1
      | Inr bin \<Rightarrow>
          (case wr of
             Stdout is_brief \<Rightarrow>
               (case Ether dec bin of
                  Some e1 \<Rightarrow> e = e1
                | None \<Rightarrow> show_scapy dec is_brief bin = Some e)
           | Pipe pp \<Rightarrow>
               (case write_packet dec p of
                  None \<Rightarrow> False
                | Some e1 \<Rightarrow>
                    e = (if is_Exception e1
                         then STLError (''fail to write packets to pipe: '' @ str_exn e1)
                         else e1))))"

text \<open>The probe stands in the way of the pipe writer only.\<close>

definition probe_clear :: "writer \<Rightarrow> pollev list \<Rightarrow> bool" where
  "probe_clear wr polled = (case wr of Stdout is_brief \<Rightarrow> True | Pipe pp \<Rightarrow> polled = [])"

text \<open>A pipe writer after a successful construction, a hangup reported by the probe
  (descriptor 3, \<open>POLLHUP\<close>), and a decoder that rejects every packet.\<close>

definition open_pipe :: pipe where
  "open_pipe = \<lparr>fifo = Some 3, fifo_name = Some ''/tmp/tmpq1w2e3'', is_init = True\<rparr>"

definition hangup :: "pollev list" where
  "hangup = [(3, 16)]"

definition rejecting_decoder :: io where
  "rejecting_decoder = \<lparr>b64decode = (\<lambda>s. Inl (OtherException ''Incorrect padding'')),
     Ether = (\<lambda>bin. None), show_scapy = (\<lambda>brief bin. None), write_packet = (\<lambda>p. None)\<rparr>"

text \<open>A decoder under which the write of the second packet to the pipe fails.\<close>

definition broken_pipe_decoder :: io where
  "broken_pipe_decoder = \<lparr>b64decode = Inr, Ether = (\<lambda>bin. None), show_scapy = (\<lambda>brief bin. None),
     write_packet = (\<lambda>p. if pkt_index p = 2 then Some (OSError ''Broken pipe'') else None)\<rparr>"

text \<open>Answers of the outside to the constructor of the pipe writer: the reader attaches and
  every step succeeds; the user interrupts the wait for the reader; the registration of the
  poll raises an exception that is no \<open>OSError\<close>; the PCAP writer fails with an
  \<open>OSError\<close> and \<open>os.close\<close> then fails too.\<close>

definition deinit_ok :: deinit_env where
  "deinit_ok = \<lparr>os_close = None, os_unlink = None\<rparr>"

definition pipe_connects :: pipe_env where
  "pipe_connects = \<lparr>mktemp = ''/tmp/tmpq1w2e3'', mkfifo = None, os_open = Return 3,
     pcap_open = None, write_header = None, poll_create = None, poll_register = None,
     ctor_deinit = deinit_ok\<rparr>"

definition pipe_interrupted :: pipe_env where
  "pipe_interrupted = pipe_connects\<lparr>os_open := Raise KeyboardInterrupt\<rparr>"

definition pipe_no_epoll :: pipe_env where
  "pipe_no_epoll = pipe_connects\<lparr>poll_register := Some (AttributeError ''module has no attribute EPOLLERR'')\<rparr>"

definition pipe_close_fails :: pipe_env where
  "pipe_close_fails = pipe_connects\<lparr>pcap_open := Some (OSError ''Too many open files''),
     ctor_deinit := \<lparr>os_close = Some ''Input/output error'', os_unlink = None\<rparr>\<rparr>"

text \<open>The stop-session RPCs of a trace.\<close>

definition is_stop_capture :: "event \<Rightarrow> bool" where
  "is_stop_capture ev = (case ev of Rpc_stop_capture c \<Rightarrow> True | _ \<Rightarrow> False)"

definition stop_capture_calls :: "event list \<Rightarrow> event list" where
  "stop_capture_calls tr = filter is_stop_capture tr"

definition is_thread_event :: "event \<Rightarrow> bool" where
  "is_thread_event ev = (case ev of Thread_start tid \<Rightarrow> True | Thread_end tid \<Rightarrow> True | _ \<Rightarrow> False)"

text \<open>Answers of the outside to the construction of a console monitor on an idle client,
  and to a \<open>stop\<close>: with the worker still running and the session known to the server;
  with the worker already gone; with the status RPC failing.\<close>

definition stop_running :: stop_env where
  "stop_running = \<lparr>worker_exited = False, join_returns = True, stop_deinit = deinit_ok,
     stop_connected = True, get_capture_status = Return [5, 7], stop_capture = Return ()\<rparr>"

definition stop_worker_gone :: stop_env where
  "stop_worker_gone = stop_running\<lparr>worker_exited := True\<rparr>"

definition stop_status_fails :: stop_env where
  "stop_status_fails = stop_running\<lparr>get_capture_status := Raise (STLError ''RPC timeout'')\<rparr>"

definition console_start :: init_env where
  "console_start = \<lparr>init_start = \<lparr>start_capture = Return (7, 1000), start_pipe = pipe_connects,
                                     thread_start = None\<rparr>,
                     init_stop = stop_running\<rparr>"

definition started :: "unit outcome \<times> monitor \<times> world" where
  "started = CaptureMonitor_init console_start [0] [1] 100 ''compact'' world0"

text \<open>A worker that forwards three packets and then ends on a failed fetch, and the
  \<open>stop\<close> of its monitor afterwards.\<close>

definition worker_done :: "unit outcome \<times> monitor \<times> world" where
  "worker_done = thread_cb plain_decoder [fetch_turn three_pkts, failing_fetch_turn]
                   (fst (snd started)) (snd (snd started))"

definition stopped_dead :: "unit outcome \<times> monitor \<times> world" where
  "stopped_dead = CaptureMonitor_stop stop_worker_gone (fst (snd worker_done)) (snd (snd worker_done))"

text \<open>Answers of the outside to a construction in which the thread cannot be spawned, and
  the server drops the connection before the rollback.\<close>

definition spawn_fails :: init_env where
  "spawn_fails = \<lparr>init_start = \<lparr>start_capture = Return (7, 1000), start_pipe = pipe_connects,
                                   thread_start = Some (OtherException ''cannot start new thread'')\<rparr>,
                   init_stop = stop_running\<rparr>"

text \<open>The manager's view of the threads: no instant of the trace had two workers alive,
  and a worker alive now is the one whose handle the manager's current monitor holds.\<close>

definition manager_inv :: "manager \<Rightarrow> world \<Rightarrow> bool" where
  "manager_inv mgr w =
     (at_most_one_live (trace w) \<and>
      (case live_threads (trace w) of
         [] \<Rightarrow> True
       | tid # others \<Rightarrow>
           others = [] \<and> (case mgr_monitor mgr of None \<Rightarrow> False | Some m \<Rightarrow> m_t m = Some tid)))"

text \<open>A console session: start a monitor, start another one over it, stop, clear.\<close>

definition session_env :: cmd_env where
  "session_env = \<lparr>cmd_stop = stop_running, cmd_init = console_start, cmd_remove_all = Return ()\<rparr>"

definition tx0_rx1 :: opts where
  "tx0_rx1 = \<lparr>opt_tx_port_list = [0], opt_rx_port_list = [1], opt_verbose = False, opt_pipe = False\<rparr>"

definition session :: "(cmd \<times> cmd_env) list" where
  "session = [(Monitor_start tx0_rx1, session_env), (Monitor_start tx0_rx1, session_env),
              (Monitor_stop, session_env), (Clear, session_env)]"

text \<open>The calls of a writer's \<open>deinit\<close> and the runs of \<open>__stop\<close> in a trace.\<close>

definition is_deinit_call :: "event \<Rightarrow> bool" where
  "is_deinit_call ev = (ev = Call_deinit)"

definition deinit_calls :: "event list \<Rightarrow> event list" where
  "deinit_calls tr = filter is_deinit_call tr"

definition is_stop_call :: "event \<Rightarrow> bool" where
  "is_stop_call ev = (ev = Call_stop)"

definition stop_runs :: "event list \<Rightarrow> event list" where
  "stop_runs tr = filter is_stop_call tr"

text \<open>\<open>__stop\<close> finds the worker alive and its \<open>join\<close> does not come back.\<close>

definition join_hangs :: "stop_env \<Rightarrow> monitor \<Rightarrow> world \<Rightarrow> bool" where
  "join_hangs env m w =
     (case m_t m of
        None \<Rightarrow> False
      | Some tid \<Rightarrow>
          tid \<in> set (live_threads (trace w)) \<and> \<not> worker_exited env \<and> \<not> join_returns env)"

text \<open>The stop-session RPC is due: the client is connected, the status RPC answers, and
  the id is in its answer.\<close>

definition stop_rpc_due :: "stop_env \<Rightarrow> capture_id option \<Rightarrow> bool" where
  "stop_rpc_due env capture_id =
     (stop_connected env \<and>
      (case get_capture_status env of
         Return captures \<Rightarrow> capture_id \<in> set (map Some captures)
       | Raise e \<Rightarrow> False
       | Hang \<Rightarrow> False))"

text \<open>Answers of the outside to the construction of a pipe monitor in which the
  registration of the poll raises an \<open>AttributeError\<close>, and to a construction in which the
  thread cannot be spawned and the status RPC of the rollback fails.\<close>

definition pipe_poll_fails :: init_env where
  "pipe_poll_fails = \<lparr>init_start = \<lparr>start_capture = Return (7, 1000), start_pipe = pipe_no_epoll,
                                       thread_start = None\<rparr>,
                       init_stop = stop_running\<rparr>"

definition rollback_status_fails :: init_env where
  "rollback_status_fails = spawn_fails\<lparr>init_stop := stop_status_fails\<rparr>"

text \<open>A pipe monitor with its worker running, for a \<open>stop\<close> that has a pipe to remove.\<close>

definition pipe_monitor :: monitor where
  "pipe_monitor = \<lparr>m_t = Some 0, m_writer = Some (Pipe open_pipe), m_capture_id = Some 7,
     m_start_ts = Some 1000, m_active = Some True, m_pkt_count = Some 0, m_byte_count = Some 0,
     m_tx_port_list = [0], m_rx_port_list = [1], m_rate_pps = 100, m_mon_type = ''pipe''\<rparr>"

definition pipe_world :: world where
  "pipe_world = \<lparr>trace = [Thread_start 0], files = [''/tmp/tmpq1w2e3''], lock_held = False,
                  next_tid = 1\<rparr>"

section \<open>Properties\<close>

subsection \<open>The command lock\<close>

lemma trace_log [simp]: "trace (log ev w) = ev # trace w"
  and files_log [simp]: "files (log ev w) = files w"
  and lock_held_log [simp]: "lock_held (log ev w) = lock_held w"
  and next_tid_log [simp]: "next_tid (log ev w) = next_tid w"
  by (simp_all add: log_def)

lemma lock_events_Nil [simp]: "lock_events [] = []"
  by (simp add: lock_events_def)

lemma lock_events_Cons [simp]:
  "lock_events (ev # tr) = (if is_lock_event ev then ev # lock_events tr else lock_events tr)"
  by (simp add: lock_events_def)

lemma stdout_handle_pkt_frame:
  "stdout_handle_pkt dec b p w = (r, w') \<Longrightarrow>
     lock_events (trace w') = lock_events (trace w) \<and> lock_held w' = lock_held w"
  by (auto simp: stdout_handle_pkt_def is_lock_event_def Let_def split: sum.splits option.splits)

lemma stdout_pkts_loop_frame:
  "stdout_pkts_loop dec b ps acc w = (r, w') \<Longrightarrow>
     lock_events (trace w') = lock_events (trace w) \<and> lock_held w' = lock_held w"
proof (induction ps arbitrary: acc w)
  case Nil
  then show ?case by simp
next
  case (Cons p ps)
  obtain r1 w1 where h: "stdout_handle_pkt dec b p w = (r1, w1)" by force
  from stdout_handle_pkt_frame[OF h] Cons h show ?case
    by (cases r1) auto
qed

lemma handle_pkts_internal_frame:
  "handle_pkts_internal dec ps acc w = (r, w') \<Longrightarrow>
     lock_events (trace w') = lock_events (trace w) \<and> lock_held w' = lock_held w"
proof (induction ps arbitrary: acc w)
  case Nil
  then show ?case by simp
next
  case (Cons p ps)
  show ?case
  proof (cases "b64decode dec (pkt_binary p)")
    case (Inl e)
    with Cons.prems show ?thesis by simp
  next
    case (Inr bin)
    show ?thesis
    proof (cases "write_packet dec p")
      case None
      with Inr Cons.prems
      have "handle_pkts_internal dec ps (acc + int (length bin)) (log (Pcap_write_packet bin) w) = (r, w')"
        by simp
      from Cons.IH[OF this] show ?thesis by (simp add: is_lock_event_def)
    next
      case (Some e)
      with Inr Cons.prems show ?thesis by (auto simp: is_lock_event_def)
    qed
  qed
qed

lemma writer_handle_pkts_frame:
  "writer_handle_pkts dec wr polled pkts w = (r, w') \<Longrightarrow>
     lock_events (trace w') = lock_events (trace w) \<and> lock_held w' = lock_held w"
proof (cases wr)
  case (Stdout b)
  assume a: "writer_handle_pkts dec wr polled pkts w = (r, w')"
  obtain r1 w1 where h: "stdout_pkts_loop dec b pkts 0 (log (Call_handle_pkts (length pkts)) w) = (r1, w1)"
    by force
  from stdout_pkts_loop_frame[OF h] a h Stdout show ?thesis
    by (auto simp: stdout_handle_pkts_def is_lock_event_def)
next
  case (Pipe p)
  assume a: "writer_handle_pkts dec wr polled pkts w = (r, w')"
  show ?thesis
  proof (cases "polled = []")
    case True
    with a Pipe have "handle_pkts_internal dec pkts 0 (log (Poll_poll 0) (log (Call_handle_pkts (length pkts)) w)) = (r, w')"
      by (simp add: pipe_handle_pkts_def check_pipe_def)
    from handle_pkts_internal_frame[OF this] show ?thesis by (simp add: is_lock_event_def)
  next
    case False
    with a Pipe show ?thesis
      by (auto simp: pipe_handle_pkts_def check_pipe_def is_lock_event_def)
  qed
qed

lemma stdout_pkts_loop_no_hang: "fst (stdout_pkts_loop dec b ps acc w) \<noteq> Hang"
proof (induction ps arbitrary: acc w)
  case Nil
  then show ?case by simp
next
  case (Cons p ps)
  then show ?case
    by (auto simp: stdout_handle_pkt_def Let_def split: sum.splits option.splits)
qed

lemma handle_pkts_internal_no_hang: "fst (handle_pkts_internal dec ps acc w) \<noteq> Hang"
  by (induction ps arbitrary: acc w) (auto split: sum.splits option.splits)

lemma writer_handle_pkts_no_hang: "fst (writer_handle_pkts dec wr polled pkts w) \<noteq> Hang"
proof (cases wr)
  case (Stdout b)
  then show ?thesis
    using stdout_pkts_loop_no_hang[of dec b pkts 0 "log (Call_handle_pkts (length pkts)) w"]
    by (auto simp: stdout_handle_pkts_def split: prod.splits)
next
  case (Pipe p)
  then show ?thesis
    using handle_pkts_internal_no_hang[of dec pkts 0]
    by (simp add: pipe_handle_pkts_def check_pipe_def)
qed

lemma writer_periodic_check_frame:
  "writer_periodic_check wr polled w = (r, w') \<Longrightarrow>
     lock_events (trace w') = lock_events (trace w) \<and> lock_held w' = lock_held w"
  by (cases wr) (auto simp: pipe_periodic_check_def check_pipe_def is_lock_event_def split: if_splits)

lemma monitor_lock_cases:
  "monitor_lock tries w = (r, w') \<Longrightarrow>
     (r = Return True \<and> w' = (log Lock_acquire w)\<lparr>lock_held := True\<rparr>) \<or>
     ((r = Return False \<or> r = Hang) \<and> w' = w)"
  by (induction tries w rule: monitor_lock.induct) (auto split: if_splits)

lemma fetch_frame:
  "fetch env m w = (r, w') \<Longrightarrow>
     lock_events (trace w') = lock_events (trace w) \<and> lock_held w' = lock_held w"
  by (auto simp: fetch_def Let_def is_lock_event_def split: if_splits outcome.splits rc.splits)

lemma fetch_locked_release:
  "fetch_locked env m w = (r, w') \<Longrightarrow> r \<noteq> Hang \<Longrightarrow>
     lock_events (trace w') = Lock_release # lock_events (trace w) \<and> \<not> lock_held w'"
proof -
  assume a: "fetch_locked env m w = (r, w')" and nh: "r \<noteq> Hang"
  obtain r1 w1 where h: "fetch env m w = (r1, w1)" by force
  from fetch_frame[OF h] a nh h show ?thesis
    by (cases r1) (auto simp: fetch_locked_def monitor_unlock_def is_lock_event_def)
qed

lemma fetch_locked_hang:
  "fetch_locked env m w = (Hang, w') \<Longrightarrow>
     lock_events (trace w') = lock_events (trace w) \<and> lock_held w' = lock_held w"
proof -
  assume a: "fetch_locked env m w = (Hang, w')"
  obtain r1 w1 where h: "fetch env m w = (r1, w1)" by force
  from fetch_frame[OF h] a h show ?thesis
    by (cases r1) (auto simp: fetch_locked_def)
qed

text \<open>
  Claim C6. In a turn of the worker's loop that reaches \<open>__lock\<close> and acquires the command
  lock, the worker holds the lock after the acquisition, and on every way out of the turn,
  a normal one or an exception (the client found disconnected, the fetch raising or
  answering with an error, the writer failing later), the lock events of the turn are
  exactly one acquisition followed by exactly one release, and the worker no longer holds
  the lock. The turn does not end only when the fetch itself never answers.
\<close>

theorem lock_released_exactly_once:
  assumes sleep: "monitor_sleep (active_sleep env)"
    and wr: "m_writer m = Some wr"
    and chk: "writer_periodic_check wr (poll_periodic env) w = (Return (), w1)"
    and lck: "monitor_lock (lock_tries env) w1 = (Return True, w2)"
    and body: "loop_body dec env m w = (r, m', w')"
  shows "lock_held w2 \<and> lock_events (trace w2) = Lock_acquire # lock_events (trace w) \<and>
         (r \<noteq> Hang \<longrightarrow>
            lock_events (trace w') = Lock_release # Lock_acquire # lock_events (trace w) \<and>
            \<not> lock_held w') \<and>
         (r = Hang \<longrightarrow> transmit env = Hang)"
proof -
  from monitor_lock_cases[OF lck] have w2: "w2 = (log Lock_acquire w1)\<lparr>lock_held := True\<rparr>"
    by auto
  from writer_periodic_check_frame[OF chk]
  have f1: "lock_events (trace w1) = lock_events (trace w)" by simp
  have acq: "lock_held w2 \<and> lock_events (trace w2) = Lock_acquire # lock_events (trace w)"
    using w2 f1 by (simp add: is_lock_event_def)
  obtain r3 w3 where fl: "fetch_locked env m w2 = (r3, w3)" by force
  show ?thesis
  proof (cases r3)
    case Hang
    from fetch_locked_hang fl Hang have "lock_held w3 = lock_held w2" by blast
    from fl Hang have "transmit env = Hang"
      by (auto simp: fetch_locked_def fetch_def Let_def split: if_splits outcome.splits rc.splits prod.splits)
    with body sleep wr chk lck fl Hang acq show ?thesis
      by (simp add: loop_body_def)
  next
    case (Raise e)
    with fetch_locked_release[OF fl] have "lock_events (trace w3) = Lock_release # lock_events (trace w2) \<and> \<not> lock_held w3"
      by simp
    with body sleep wr chk lck fl Raise acq show ?thesis
      by (auto simp: loop_body_def)
  next
    case (Return pkts)
    with fetch_locked_release[OF fl] have rel: "lock_events (trace w3) = Lock_release # lock_events (trace w2) \<and> \<not> lock_held w3"
      by simp
    show ?thesis
    proof (cases "pkts = []")
      case True
      with body sleep wr chk lck fl Return acq rel show ?thesis
        by (auto simp: loop_body_def)
    next
      case False
      obtain r4 w4 where hp: "writer_handle_pkts dec wr (poll_prewrite env) pkts w3 = (r4, w4)" by force
      from writer_handle_pkts_frame[OF hp] rel acq
      have f4: "lock_events (trace w4) = Lock_release # Lock_acquire # lock_events (trace w) \<and> \<not> lock_held w4"
        by simp
      from writer_handle_pkts_no_hang[of dec wr "poll_prewrite env" pkts w3] hp have nh: "r4 \<noteq> Hang" by simp
      with body sleep wr chk lck fl Return False hp f4 acq show ?thesis
        by (cases r4) (auto simp: loop_body_def add_counters_def Let_def split: option.splits)
    qed
  qed
qed

theorem lock_released_exactly_once_witness:
  "monitor_sleep (active_sleep failing_fetch_turn) \<and>
   m_writer console_monitor = Some (Stdout True) \<and>
   writer_periodic_check (Stdout True) (poll_periodic failing_fetch_turn) world0 = (Return (), world0) \<and>
   monitor_lock (lock_tries failing_fetch_turn) world0
     = (Return True, (log Lock_acquire world0)\<lparr>lock_held := True\<rparr>) \<and>
   fst (loop_body plain_decoder failing_fetch_turn console_monitor world0) = Raise (STLError ''RPC timeout'') \<and>
   lock_events (trace (snd (snd (loop_body plain_decoder failing_fetch_turn console_monitor world0))))
     = [Lock_release, Lock_acquire] \<and>
   \<not> lock_held (snd (snd (loop_body plain_decoder failing_fetch_turn console_monitor world0)))"
proof -
  have h1: "monitor_sleep (active_sleep failing_fetch_turn)"
    by (simp add: monitor_sleep_def failing_fetch_turn_def list_all_iff)
  have h2: "m_writer console_monitor = Some (Stdout True)"
    by (simp add: console_monitor_def)
  have h3: "writer_periodic_check (Stdout True) (poll_periodic failing_fetch_turn) world0 = (Return (), world0)"
    by simp
  have h4: "monitor_lock (lock_tries failing_fetch_turn) world0
              = (Return True, (log Lock_acquire world0)\<lparr>lock_held := True\<rparr>)"
    by (simp add: failing_fetch_turn_def)
  have h5: "loop_body plain_decoder failing_fetch_turn console_monitor world0
              = (fst (loop_body plain_decoder failing_fetch_turn console_monitor world0),
                 fst (snd (loop_body plain_decoder failing_fetch_turn console_monitor world0)),
                 snd (snd (loop_body plain_decoder failing_fetch_turn console_monitor world0)))"
    by simp
  have r: "fst (loop_body plain_decoder failing_fetch_turn console_monitor world0) = Raise (STLError ''RPC timeout'')"
    by (simp add: loop_body_def h2 monitor_sleep_def list_all_iff failing_fetch_turn_def
          fetch_locked_def fetch_def)
  from lock_released_exactly_once [OF h1 h2 h3 h4 h5] r h1 h2 h3 h4
  show ?thesis by (simp add: world0_def)
qed

subsection \<open>The counters of the worker\<close>

lemma handle_pkts_calls_Cons [simp]:
  "handle_pkts_calls (ev # tr) = (if is_handle_pkts_call ev then ev # handle_pkts_calls tr else handle_pkts_calls tr)"
  by (simp add: handle_pkts_calls_def)

lemma writer_periodic_check_fst:
  "fst (writer_periodic_check wr polled w) = fst (writer_periodic_check wr polled world0)"
  by (cases wr) (simp_all add: pipe_periodic_check_def check_pipe_def)

lemma monitor_lock_fst:
  "fst (monitor_lock tries w) = fst (monitor_lock tries world0)"
  by (induction tries w rule: monitor_lock.induct) simp_all

lemma writer_periodic_check_calls:
  "handle_pkts_calls (trace (snd (writer_periodic_check wr polled w))) = handle_pkts_calls (trace w)"
  by (cases wr) (simp_all add: pipe_periodic_check_def check_pipe_def is_handle_pkts_call_def)

lemma monitor_lock_calls:
  "handle_pkts_calls (trace (snd (monitor_lock tries w))) = handle_pkts_calls (trace w)"
  by (induction tries w rule: monitor_lock.induct) (simp_all add: is_handle_pkts_call_def)

lemma fetch_returns_body:
  assumes wr: "m_writer m = Some wr" and f: "fetch_returns env wr pkts"
  shows "\<exists>w3. handle_pkts_calls (trace w3) = handle_pkts_calls (trace w) \<and>
           loop_body dec env m w =
             (if pkts = [] then (Return True, m, w3)
              else (case writer_handle_pkts dec wr (poll_prewrite env) pkts w3 of
                      (Hang, w4) \<Rightarrow> (Hang, m, w4)
                    | (Raise e, w4) \<Rightarrow> (Raise e, m, w4)
                    | (Return byte_count, w4) \<Rightarrow>
                        (case add_counters (length pkts) byte_count m of
                           (Return u, m1) \<Rightarrow> (Return True, m1, w4)
                         | (Raise e, m1) \<Rightarrow> (Raise e, m1, w4)
                         | (Hang, m1) \<Rightarrow> (Hang, m1, w4))))"
proof -
  obtain r1 w1 where c: "writer_periodic_check wr (poll_periodic env) w = (r1, w1)" by force
  obtain r2 w2 where l: "monitor_lock (lock_tries env) w1 = (r2, w2)" by force
  from f c writer_periodic_check_fst[of wr "poll_periodic env" w]
  have r1: "r1 = Return ()" by (simp add: fetch_returns_def)
  from f l monitor_lock_fst[of "lock_tries env" w1]
  have r2: "r2 = Return True" by (simp add: fetch_returns_def)
  from writer_periodic_check_calls[of wr "poll_periodic env" w] c
  have c1: "handle_pkts_calls (trace w1) = handle_pkts_calls (trace w)" by simp
  from monitor_lock_calls[of "lock_tries env" w1] l
  have c2: "handle_pkts_calls (trace w2) = handle_pkts_calls (trace w1)" by simp
  let ?w3 = "monitor_unlock (log (Rpc_fetch (m_capture_id m) 10) (log Rpc_is_connected w2))"
  from f have fl: "fetch_locked env m w2 = (Return pkts, ?w3)"
    by (simp add: fetch_returns_def fetch_locked_def fetch_def)
  have c3: "handle_pkts_calls (trace ?w3) = handle_pkts_calls (trace w)"
    using c1 c2 by (simp add: monitor_unlock_def is_handle_pkts_call_def)
  from f have sl: "monitor_sleep (active_sleep env)" by (simp add: fetch_returns_def)
  have "loop_body dec env m w =
             (if pkts = [] then (Return True, m, ?w3)
              else (case writer_handle_pkts dec wr (poll_prewrite env) pkts ?w3 of
                      (Hang, w4) \<Rightarrow> (Hang, m, w4)
                    | (Raise e, w4) \<Rightarrow> (Raise e, m, w4)
                    | (Return byte_count, w4) \<Rightarrow>
                        (case add_counters (length pkts) byte_count m of
                           (Return u, m1) \<Rightarrow> (Return True, m1, w4)
                         | (Raise e, m1) \<Rightarrow> (Raise e, m1, w4)
                         | (Hang, m1) \<Rightarrow> (Hang, m1, w4))))"
    using sl wr c r1 l r2 fl by (simp add: loop_body_def)
  with c3 show ?thesis by blast
qed

text \<open>
  Claim C2. In a turn of the worker's loop in which the fetch RPC succeeds and delivers an
  empty packet list, the turn ends by going round the loop again with the monitor
  unchanged, so \<open>pkt_count\<close> and \<open>byte_count\<close> are what they were, and the trace of
  the turn holds no call of \<open>handle_pkts\<close>.
\<close>

theorem empty_fetch_changes_nothing:
  assumes "m_writer m = Some wr" and "fetch_returns env wr []"
  shows "\<exists>w'. loop_body dec env m w = (Return True, m, w') \<and>
              handle_pkts_calls (trace w') = handle_pkts_calls (trace w)"
  using fetch_returns_body[OF assms, of w dec] by auto

lemma stdout_handle_pkt_fst:
  "fst (stdout_handle_pkt dec b p w) = fst (stdout_handle_pkt dec b p world0)"
  by (simp add: stdout_handle_pkt_def Let_def split: sum.splits option.splits)

lemma stdout_handle_pkt_nonneg:
  "fst (stdout_handle_pkt dec b p w) = Return n \<Longrightarrow> 0 \<le> n"
  by (auto simp: stdout_handle_pkt_def Let_def split: sum.splits option.splits)

lemma stdout_pkts_loop_fst:
  "fst (stdout_pkts_loop dec b ps acc w) = fst (stdout_pkts_loop dec b ps acc world0)"
proof (induction ps arbitrary: acc w)
  case Nil
  show ?case by simp
next
  case (Cons p ps)
  obtain r1 w1 where h: "stdout_handle_pkt dec b p w = (r1, w1)" by force
  obtain r2 w2 where h0: "stdout_handle_pkt dec b p world0 = (r2, w2)" by force
  from stdout_handle_pkt_fst[of dec b p w] h h0 have eq: "r2 = r1" by simp
  show ?case
  proof (cases r1)
    case (Return n)
    with h h0 eq Cons.IH[of "acc + n" w1] Cons.IH[of "acc + n" w2] show ?thesis by simp
  qed (use h h0 eq in simp_all)
qed

lemma stdout_pkts_loop_mono:
  "fst (stdout_pkts_loop dec b ps acc w) = Return n \<Longrightarrow> acc \<le> n"
proof (induction ps arbitrary: acc w)
  case Nil
  then show ?case by simp
next
  case (Cons p ps)
  obtain r1 w1 where h: "stdout_handle_pkt dec b p w = (r1, w1)" by force
  show ?case
  proof (cases r1)
    case (Return k)
    from stdout_handle_pkt_nonneg[of dec b p w k] h Return have "0 \<le> k" by simp
    moreover from Cons.prems h Return have "fst (stdout_pkts_loop dec b ps (acc + k) w1) = Return n"
      by simp
    from Cons.IH[OF this] have "acc + k \<le> n" .
    ultimately show ?thesis by simp
  qed (use Cons.prems h in simp_all)
qed

lemma handle_pkts_internal_fst:
  "fst (handle_pkts_internal dec ps acc w) = fst (handle_pkts_internal dec ps acc world0)"
proof (induction ps arbitrary: acc w)
  case Nil
  show ?case by simp
next
  case (Cons p ps)
  show ?case
  proof (cases "b64decode dec (pkt_binary p)")
    case (Inl e)
    then show ?thesis by simp
  next
    case (Inr bin)
    show ?thesis
    proof (cases "write_packet dec p")
      case None
      with Inr Cons.IH[of "acc + int (length bin)" "log (Pcap_write_packet bin) w"]
        Cons.IH[of "acc + int (length bin)" "log (Pcap_write_packet bin) world0"]
      show ?thesis by simp
    next
      case (Some e)
      with Inr show ?thesis by simp
    qed
  qed
qed

lemma handle_pkts_internal_mono:
  "fst (handle_pkts_internal dec ps acc w) = Return n \<Longrightarrow> acc \<le> n"
proof (induction ps arbitrary: acc w)
  case Nil
  then show ?case by simp
next
  case (Cons p ps)
  show ?case
  proof (cases "b64decode dec (pkt_binary p)")
    case (Inl e)
    with Cons.prems show ?thesis by simp
  next
    case (Inr bin)
    show ?thesis
    proof (cases "write_packet dec p")
      case None
      with Inr Cons.prems
      have "fst (handle_pkts_internal dec ps (acc + int (length bin)) (log (Pcap_write_packet bin) w)) = Return n"
        by simp
      from Cons.IH[OF this] show ?thesis by simp
    next
      case (Some e)
      with Inr Cons.prems show ?thesis by (simp split: if_splits)
    qed
  qed
qed

lemma writer_handle_pkts_fst:
  "fst (writer_handle_pkts dec wr polled pkts w) = fst (writer_handle_pkts dec wr polled pkts world0)"
proof (cases wr)
  case (Stdout b)
  then show ?thesis
    using stdout_pkts_loop_fst[of dec b pkts 0 "log (Call_handle_pkts (length pkts)) w"]
      stdout_pkts_loop_fst[of dec b pkts 0 "log (Call_handle_pkts (length pkts)) world0"]
    by (simp add: stdout_handle_pkts_def case_prod_beta)
next
  case (Pipe p)
  then show ?thesis
    using handle_pkts_internal_fst[of dec pkts 0 "log (Poll_poll 0) (log (Call_handle_pkts (length pkts)) w)"]
      handle_pkts_internal_fst[of dec pkts 0 "log (Poll_poll 0) (log (Call_handle_pkts (length pkts)) world0)"]
    by (simp add: pipe_handle_pkts_def check_pipe_def)
qed

lemma writer_handle_pkts_nonneg:
  "fst (writer_handle_pkts dec wr polled pkts w) = Return n \<Longrightarrow> 0 \<le> n"
proof (cases wr)
  case (Stdout b)
  assume "fst (writer_handle_pkts dec wr polled pkts w) = Return n"
  with Stdout have "fst (stdout_pkts_loop dec b pkts 0 (log (Call_handle_pkts (length pkts)) w)) = Return n"
    by (simp add: stdout_handle_pkts_def case_prod_beta)
  then show ?thesis by (rule stdout_pkts_loop_mono)
next
  case (Pipe p)
  assume a: "fst (writer_handle_pkts dec wr polled pkts w) = Return n"
  show ?thesis
  proof (cases "polled = []")
    case True
    with a Pipe have "fst (handle_pkts_internal dec pkts 0 (log (Poll_poll 0) (log (Call_handle_pkts (length pkts)) w))) = Return n"
      by (simp add: pipe_handle_pkts_def check_pipe_def)
    then show ?thesis by (rule handle_pkts_internal_mono)
  next
    case False
    with a Pipe show ?thesis by (simp add: pipe_handle_pkts_def check_pipe_def)
  qed
qed

lemma cycle_succeeds_body:
  assumes wr: "m_writer m = Some wr" and pc: "m_pkt_count m = Some p" and bc: "m_byte_count m = Some b"
    and c: "cycle_succeeds dec wr env pkts n"
  shows "\<exists>w'. loop_body dec env m w =
           (Return True, m\<lparr>m_pkt_count := Some (p + int (length pkts)), m_byte_count := Some (b + n)\<rparr>, w')"
proof -
  from c have f: "fetch_returns env wr pkts" by (simp add: cycle_succeeds_def)
  from fetch_returns_body[OF wr f, of w dec] obtain w3 where
    body: "loop_body dec env m w =
             (if pkts = [] then (Return True, m, w3)
              else (case writer_handle_pkts dec wr (poll_prewrite env) pkts w3 of
                      (Hang, w4) \<Rightarrow> (Hang, m, w4)
                    | (Raise e, w4) \<Rightarrow> (Raise e, m, w4)
                    | (Return byte_count, w4) \<Rightarrow>
                        (case add_counters (length pkts) byte_count m of
                           (Return u, m1) \<Rightarrow> (Return True, m1, w4)
                         | (Raise e, m1) \<Rightarrow> (Raise e, m1, w4)
                         | (Hang, m1) \<Rightarrow> (Hang, m1, w4))))"
    by blast
  show ?thesis
  proof (cases "pkts = []")
    case True
    with c have "n = 0" by (simp add: cycle_succeeds_def)
    moreover have "m\<lparr>m_pkt_count := Some p, m_byte_count := Some b\<rparr> = m"
      using pc bc by (cases m) simp
    ultimately show ?thesis using body True by simp
  next
    case False
    obtain r4 w4 where h: "writer_handle_pkts dec wr (poll_prewrite env) pkts w3 = (r4, w4)" by force
    from c False writer_handle_pkts_fst[of dec wr "poll_prewrite env" pkts w3] h
    have "r4 = Return n" by (simp add: cycle_succeeds_def)
    with body False h pc bc show ?thesis
      by (simp add: add_counters_def Let_def)
  qed
qed

lemma main_loop_cycles:
  assumes "list_all2 (\<lambda>env kb. cycle_succeeds dec wr env (fst kb) (snd kb)) envs kbs"
    and "m_writer m = Some wr" and "m_pkt_count m = Some p" and "m_byte_count m = Some b"
  shows "\<exists>w'. main_loop dec envs m w =
           (Hang, m\<lparr>m_pkt_count := Some (p + sum_list (map (\<lambda>kb. int (length (fst kb))) kbs)),
                    m_byte_count := Some (b + sum_list (map snd kbs))\<rparr>, w')"
  using assms
proof (induction envs kbs arbitrary: m w p b rule: list_all2_induct)
  case Nil
  have "m\<lparr>m_pkt_count := Some p, m_byte_count := Some b\<rparr> = m"
    using Nil by (cases m) simp
  then show ?case by simp
next
  case (Cons env envs kb kbs)
  from Cons.hyps have act: "active_loop env" by (simp add: cycle_succeeds_def)
  let ?m1 = "m\<lparr>m_pkt_count := Some (p + int (length (fst kb))), m_byte_count := Some (b + snd kb)\<rparr>"
  from cycle_succeeds_body[OF Cons.prems(1) Cons.prems(2) Cons.prems(3) Cons.hyps(1), of w]
  obtain w1 where body: "loop_body dec env m w = (Return True, ?m1, w1)" by blast
  have "m_writer ?m1 = Some wr" using Cons.prems by simp
  from Cons.IH[OF this, of "p + int (length (fst kb))" "b + snd kb" w1]
  obtain w' where "main_loop dec envs ?m1 w1 =
      (Hang, ?m1\<lparr>m_pkt_count := Some (p + int (length (fst kb)) + sum_list (map (\<lambda>kb. int (length (fst kb))) kbs)),
                 m_byte_count := Some (b + snd kb + sum_list (map snd kbs))\<rparr>, w')"
    by auto
  with act body show ?case by (simp add: add.assoc)
qed

lemma add_counters_mono:
  "add_counters k n m = (r, m') \<Longrightarrow> 0 \<le> n \<Longrightarrow> m_pkt_count m = Some p \<Longrightarrow> m_byte_count m = Some b \<Longrightarrow>
     \<exists>p' b'. m_pkt_count m' = Some p' \<and> m_byte_count m' = Some b' \<and> p \<le> p' \<and> b \<le> b'"
  by (auto simp: add_counters_def Let_def)

lemma loop_body_monitor:
  "loop_body dec env m w = (r, m', w') \<Longrightarrow>
     m' = m \<or> (\<exists>wr pkts n w3 r1. fst (writer_handle_pkts dec wr (poll_prewrite env) pkts w3) = Return n \<and>
                  add_counters (length pkts) n m = (r1, m'))"
  apply (auto simp: loop_body_def split: if_splits option.splits outcome.splits prod.splits bool.splits)
    apply (metis fst_conv)+
  done

lemma loop_body_mono:
  assumes "loop_body dec env m w = (r, m', w')" and "m_pkt_count m = Some p" and "m_byte_count m = Some b"
  shows "\<exists>p' b'. m_pkt_count m' = Some p' \<and> m_byte_count m' = Some b' \<and> p \<le> p' \<and> b \<le> b'"
proof -
  from loop_body_monitor[OF assms(1)] show ?thesis
  proof
    assume "m' = m"
    with assms show ?thesis by simp
  next
    assume "\<exists>wr pkts n w3 r1. fst (writer_handle_pkts dec wr (poll_prewrite env) pkts w3) = Return n \<and>
                  add_counters (length pkts) n m = (r1, m')"
    then obtain wr pkts n w3 r1 where h: "fst (writer_handle_pkts dec wr (poll_prewrite env) pkts w3) = Return n"
      and a: "add_counters (length pkts) n m = (r1, m')" by blast
    from writer_handle_pkts_nonneg[OF h] have "0 \<le> n" .
    from add_counters_mono[OF a this assms(2) assms(3)] show ?thesis .
  qed
qed

lemma main_loop_mono:
  "main_loop dec envs m w = (r, m', w') \<Longrightarrow> m_pkt_count m = Some p \<Longrightarrow> m_byte_count m = Some b \<Longrightarrow>
     \<exists>p' b'. m_pkt_count m' = Some p' \<and> m_byte_count m' = Some b' \<and> p \<le> p' \<and> b \<le> b'"
proof (induction envs arbitrary: m w p b)
  case Nil
  then show ?case by simp
next
  case (Cons env envs)
  show ?case
  proof (cases "active_loop env")
    case False
    with Cons.prems show ?thesis by simp
  next
    case True
    obtain r1 m1 w1 where body: "loop_body dec env m w = (r1, m1, w1)"
      by (metis prod_cases3)
    from loop_body_mono[OF body Cons.prems(2) Cons.prems(3)]
    obtain p1 b1 where s1: "m_pkt_count m1 = Some p1" "m_byte_count m1 = Some b1" "p \<le> p1" "b \<le> b1"
      by blast
    show ?thesis
    proof (cases "r1 = Return True")
      case False
      with True body Cons.prems(1) have "m' = m1"
        by (cases r1) (auto split: bool.splits)
      with s1 show ?thesis by simp
    next
      case rt: True
      with True body Cons.prems(1) have "main_loop dec envs m1 w1 = (r, m', w')" by simp
      from Cons.IH[OF this s1(1) s1(2)] s1 show ?thesis by force
    qed
  qed
qed

lemma main_loop_prefix_mono:
  "m_pkt_count m = Some p \<Longrightarrow> m_byte_count m = Some b \<Longrightarrow>
     \<exists>p1 b1 p2 b2.
        m_pkt_count (fst (snd (main_loop dec envs m w))) = Some p1 \<and>
        m_byte_count (fst (snd (main_loop dec envs m w))) = Some b1 \<and>
        m_pkt_count (fst (snd (main_loop dec (envs @ rest) m w))) = Some p2 \<and>
        m_byte_count (fst (snd (main_loop dec (envs @ rest) m w))) = Some b2 \<and>
        p \<le> p1 \<and> p1 \<le> p2 \<and> b \<le> b1 \<and> b1 \<le> b2"
proof (induction envs arbitrary: m w p b)
  case Nil
  obtain r m' w' where h: "main_loop dec rest m w = (r, m', w')" by (metis prod_cases3)
  from main_loop_mono[OF h Nil(1) Nil(2)] h Nil show ?case by auto
next
  case (Cons env envs)
  show ?case
  proof (cases "active_loop env")
    case False
    with Cons.prems show ?thesis by simp
  next
    case True
    obtain r1 m1 w1 where body: "loop_body dec env m w = (r1, m1, w1)"
      by (metis prod_cases3)
    from loop_body_mono[OF body Cons.prems(1) Cons.prems(2)]
    obtain p1 b1 where s1: "m_pkt_count m1 = Some p1" "m_byte_count m1 = Some b1" "p \<le> p1" "b \<le> b1"
      by blast
    show ?thesis
    proof (cases "r1 = Return True")
      case False
      with True body have "main_loop dec (env # envs) m w = main_loop dec ((env # envs) @ rest) m w"
        and "fst (snd (main_loop dec (env # envs) m w)) = m1"
        by (cases r1; auto split: bool.splits)+
      with s1 show ?thesis by simp
    next
      case rt: True
      with True body have e1: "main_loop dec (env # envs) m w = main_loop dec envs m1 w1"
        and e2: "main_loop dec ((env # envs) @ rest) m w = main_loop dec (envs @ rest) m1 w1"
        by simp_all
      from Cons.IH[OF s1(1) s1(2), of w1] s1 show ?thesis
        unfolding e1 e2 by force
    qed
  qed
qed

text \<open>
  Claim C1. When the worker goes through N successive successful fetch cycles, the i-th
  delivering the packets \<open>fst (kbs ! i)\<close> and its \<open>handle_pkts\<close> call returning
  \<open>snd (kbs ! i)\<close> bytes, the worker is still in its loop afterwards and the monitor's
  counters are the totals: \<open>pkt_count\<close> is the sum of the batch sizes and \<open>byte_count\<close>
  the sum of the returned byte counts. And for every run of the worker, whatever its turns
  do, the counters after rest turns are at least the counters before them, which are at
  least zero.
\<close>

theorem counters_are_sums_and_monotone:
  "(m_writer m = Some wr \<and>
    list_all2 (\<lambda>env kb. cycle_succeeds dec wr env (fst kb) (snd kb)) envs kbs \<longrightarrow>
      (\<exists>w'. thread_main_loop dec envs m w =
         (Hang, m\<lparr>m_pkt_count := Some (sum_list (map (\<lambda>kb. int (length (fst kb))) kbs)),
                  m_byte_count := Some (sum_list (map snd kbs))\<rparr>, w'))) \<and>
   (\<exists>p1 b1 p2 b2.
      pkt_count_after dec envs m w = Some p1 \<and> byte_count_after dec envs m w = Some b1 \<and>
      pkt_count_after dec (envs @ rest) m w = Some p2 \<and> byte_count_after dec (envs @ rest) m w = Some b2 \<and>
      0 \<le> p1 \<and> p1 \<le> p2 \<and> 0 \<le> b1 \<and> b1 \<le> b2)"
proof
  let ?m0 = "m\<lparr>m_pkt_count := Some 0, m_byte_count := Some 0\<rparr>"
  show "m_writer m = Some wr \<and>
    list_all2 (\<lambda>env kb. cycle_succeeds dec wr env (fst kb) (snd kb)) envs kbs \<longrightarrow>
      (\<exists>w'. thread_main_loop dec envs m w =
         (Hang, m\<lparr>m_pkt_count := Some (sum_list (map (\<lambda>kb. int (length (fst kb))) kbs)),
                  m_byte_count := Some (sum_list (map snd kbs))\<rparr>, w'))"
  proof
    assume a: "m_writer m = Some wr \<and>
      list_all2 (\<lambda>env kb. cycle_succeeds dec wr env (fst kb) (snd kb)) envs kbs"
    then have "m_writer ?m0 = Some wr" by simp
    from main_loop_cycles[OF conjunct2[OF a] this, of 0 0 w]
    show "\<exists>w'. thread_main_loop dec envs m w =
         (Hang, m\<lparr>m_pkt_count := Some (sum_list (map (\<lambda>kb. int (length (fst kb))) kbs)),
                  m_byte_count := Some (sum_list (map snd kbs))\<rparr>, w')"
      by (simp add: thread_main_loop_def)
  qed
  have "m_pkt_count ?m0 = Some 0" "m_byte_count ?m0 = Some 0" by simp_all
  from main_loop_prefix_mono[OF this, of dec envs w rest]
  show "\<exists>p1 b1 p2 b2.
      pkt_count_after dec envs m w = Some p1 \<and> byte_count_after dec envs m w = Some b1 \<and>
      pkt_count_after dec (envs @ rest) m w = Some p2 \<and> byte_count_after dec (envs @ rest) m w = Some b2 \<and>
      0 \<le> p1 \<and> p1 \<le> p2 \<and> 0 \<le> b1 \<and> b1 \<le> b2"
    by (simp add: pkt_count_after_def byte_count_after_def thread_main_loop_def)
qed

theorem empty_fetch_changes_nothing_witness:
  "m_writer console_monitor = Some (Stdout True) \<and>
   fetch_returns (fetch_turn []) (Stdout True) [] \<and>
   (\<exists>w'. loop_body plain_decoder (fetch_turn []) console_monitor world0 = (Return True, console_monitor, w') \<and>
         handle_pkts_calls (trace w') = handle_pkts_calls (trace world0))"
proof -
  have h1: "m_writer console_monitor = Some (Stdout True)"
    by (simp add: console_monitor_def)
  have h2: "fetch_returns (fetch_turn []) (Stdout True) []"
    by (simp add: fetch_returns_def fetch_turn_def monitor_sleep_def list_all_iff)
  from empty_fetch_changes_nothing [OF h1 h2, of plain_decoder world0] h1 h2
  show ?thesis by simp
qed

lemma three_pkts_cycle: "cycle_succeeds plain_decoder (Stdout True) (fetch_turn three_pkts) three_pkts 12"
  by (simp add: cycle_succeeds_def fetch_returns_def fetch_turn_def monitor_sleep_def list_all_iff
      three_pkts_def sample_pkt_def stdout_handle_pkts_def stdout_handle_pkt_def plain_decoder_def)

lemma no_pkts_cycle: "cycle_succeeds plain_decoder (Stdout True) (fetch_turn []) [] 0"
  by (simp add: cycle_succeeds_def fetch_returns_def fetch_turn_def monitor_sleep_def list_all_iff)

theorem counters_are_sums_and_monotone_witness:
  "m_writer console_monitor = Some (Stdout True) \<and>
   list_all2 (\<lambda>env kb. cycle_succeeds plain_decoder (Stdout True) env (fst kb) (snd kb))
     [fetch_turn three_pkts, fetch_turn []] [(three_pkts, 12), ([], 0)] \<and>
   fst (thread_main_loop plain_decoder [fetch_turn three_pkts, fetch_turn []] console_monitor world0) = Hang \<and>
   pkt_count_after plain_decoder [fetch_turn three_pkts, fetch_turn []] console_monitor world0 = Some 3 \<and>
   byte_count_after plain_decoder [fetch_turn three_pkts, fetch_turn []] console_monitor world0 = Some 12"
proof -
  have h1: "m_writer console_monitor = Some (Stdout True)"
    by (simp add: console_monitor_def)
  have h2: "list_all2 (\<lambda>env kb. cycle_succeeds plain_decoder (Stdout True) env (fst kb) (snd kb))
     [fetch_turn three_pkts, fetch_turn []] [(three_pkts, 12), ([], 0)]"
    by (simp add: three_pkts_cycle no_pkts_cycle)
  have len: "length three_pkts = 3" by (simp add: three_pkts_def)
  from counters_are_sums_and_monotone [of console_monitor "Stdout True" plain_decoder
      "[fetch_turn three_pkts, fetch_turn []]" "[(three_pkts, 12), ([], 0)]" world0 "[]"] h1 h2
  obtain w' where "thread_main_loop plain_decoder [fetch_turn three_pkts, fetch_turn []] console_monitor world0 =
         (Hang, console_monitor\<lparr>m_pkt_count := Some 3, m_byte_count := Some 12\<rparr>, w')"
    by (auto simp: len)
  with h1 h2 show ?thesis
    by (simp add: pkt_count_after_def byte_count_after_def)
qed

subsection \<open>The writers\<close>

lemma handle_pkts_internal_trace:
  "\<exists>evs. trace (snd (handle_pkts_internal dec ps acc w)) = evs @ trace w"
proof (induction ps arbitrary: acc w)
  case Nil
  show ?case by simp
next
  case (Cons p ps)
  show ?case
  proof (cases "b64decode dec (pkt_binary p)")
    case (Inl e)
    then show ?thesis by simp
  next
    case (Inr bin)
    show ?thesis
    proof (cases "write_packet dec p")
      case None
      from Cons.IH[of "acc + int (length bin)" "log (Pcap_write_packet bin) w"]
      obtain evs where "trace (snd (handle_pkts_internal dec ps (acc + int (length bin)) (log (Pcap_write_packet bin) w)))
          = evs @ Pcap_write_packet bin # trace w" by auto
      then have "trace (snd (handle_pkts_internal dec (p # ps) acc w)) = (evs @ [Pcap_write_packet bin]) @ trace w"
        using Inr None by simp
      then show ?thesis by blast
    next
      case (Some e)
      with Inr show ?thesis by simp
    qed
  qed
qed

text \<open>
  Claim C8. For the pipe writer, \<open>periodic_check\<close> and \<open>handle_pkts\<close> both ask the poll
  object with timeout 0, \<open>handle_pkts\<close> before anything else it does; and when the answer
  of the poll is not empty, as it is when the probe reports a hangup, both raise
  \<open>STLError\<close> with the message \<open>pipe has been disconnected\<close> at once, without writing
  a packet.
\<close>

theorem pipe_probe_raises_disconnected:
  "trace (snd (writer_periodic_check (Pipe pp) polled w)) = Poll_poll 0 # trace w \<and>
   (\<exists>evs. trace (snd (writer_handle_pkts dec (Pipe pp) polled pkts w))
            = evs @ Poll_poll 0 # Call_handle_pkts (length pkts) # trace w) \<and>
   (polled \<noteq> [] \<longrightarrow>
      writer_periodic_check (Pipe pp) polled w
        = (Raise (STLError ''pipe has been disconnected''), log (Poll_poll 0) w) \<and>
      writer_handle_pkts dec (Pipe pp) polled pkts w
        = (Raise (STLError ''pipe has been disconnected''),
           log (Poll_poll 0) (log (Call_handle_pkts (length pkts)) w)))"
proof -
  have a: "trace (snd (writer_periodic_check (Pipe pp) polled w)) = Poll_poll 0 # trace w"
    by (simp add: pipe_periodic_check_def check_pipe_def)
  have b: "\<exists>evs. trace (snd (writer_handle_pkts dec (Pipe pp) polled pkts w))
            = evs @ Poll_poll 0 # Call_handle_pkts (length pkts) # trace w"
  proof (cases "polled = []")
    case True
    from handle_pkts_internal_trace[of dec pkts 0 "log (Poll_poll 0) (log (Call_handle_pkts (length pkts)) w)"]
    show ?thesis using True by (simp add: pipe_handle_pkts_def check_pipe_def)
  next
    case False
    then show ?thesis by (simp add: pipe_handle_pkts_def check_pipe_def)
  qed
  have c: "polled \<noteq> [] \<longrightarrow>
      writer_periodic_check (Pipe pp) polled w
        = (Raise (STLError ''pipe has been disconnected''), log (Poll_poll 0) w) \<and>
      writer_handle_pkts dec (Pipe pp) polled pkts w
        = (Raise (STLError ''pipe has been disconnected''),
           log (Poll_poll 0) (log (Call_handle_pkts (length pkts)) w))"
    by (simp add: pipe_periodic_check_def pipe_handle_pkts_def check_pipe_def)
  from a b c show ?thesis by blast
qed

theorem pipe_probe_raises_disconnected_witness:
  "hangup \<noteq> [] \<and>
   writer_periodic_check (Pipe open_pipe) hangup world0
     = (Raise (STLError ''pipe has been disconnected''), log (Poll_poll 0) world0) \<and>
   writer_handle_pkts plain_decoder (Pipe open_pipe) hangup three_pkts world0
     = (Raise (STLError ''pipe has been disconnected''),
        log (Poll_poll 0) (log (Call_handle_pkts 3) world0))"
proof -
  have h: "hangup \<noteq> []" by (simp add: hangup_def)
  have len: "length three_pkts = 3" by (simp add: three_pkts_def)
  from pipe_probe_raises_disconnected [of open_pipe hangup world0 plain_decoder three_pkts] h len
  show ?thesis by simp
qed

lemma stdout_handle_pkt_Return:
  "fst (stdout_handle_pkt dec b p w) = Return n \<Longrightarrow> pkt_ok dec (Stdout b) p \<and> n = decoded_len dec p"
  by (auto simp: stdout_handle_pkt_def pkt_ok_def decoded_len_def Let_def split: sum.splits option.splits)

lemma stdout_handle_pkt_Raise:
  "fst (stdout_handle_pkt dec b p w) = Raise e \<Longrightarrow> pkt_raises dec (Stdout b) p e"
  by (auto simp: stdout_handle_pkt_def pkt_raises_def Let_def split: sum.splits option.splits)

lemma stdout_pkts_loop_Return:
  "fst (stdout_pkts_loop dec b ps acc w) = Return n \<Longrightarrow>
     list_all (pkt_ok dec (Stdout b)) ps \<and> n = acc + sum_list (map (decoded_len dec) ps)"
proof (induction ps arbitrary: acc w)
  case Nil
  then show ?case by simp
next
  case (Cons p ps)
  obtain r1 w1 where h: "stdout_handle_pkt dec b p w = (r1, w1)" by force
  show ?case
  proof (cases r1)
    case (Return k)
    from stdout_handle_pkt_Return[of dec b p w k] h Return
    have ok: "pkt_ok dec (Stdout b) p" and k: "k = decoded_len dec p" by simp_all
    from Cons.prems h Return have "fst (stdout_pkts_loop dec b ps (acc + k) w1) = Return n" by simp
    from Cons.IH[OF this] ok k show ?thesis by simp
  qed (use Cons.prems h in simp_all)
qed

lemma stdout_pkts_loop_Raise:
  "fst (stdout_pkts_loop dec b ps acc w) = Raise e \<Longrightarrow> \<exists>p\<in>set ps. pkt_raises dec (Stdout b) p e"
proof (induction ps arbitrary: acc w)
  case Nil
  then show ?case by simp
next
  case (Cons p ps)
  obtain r1 w1 where h: "stdout_handle_pkt dec b p w = (r1, w1)" by force
  show ?case
  proof (cases r1)
    case (Return k)
    with Cons.prems h have "fst (stdout_pkts_loop dec b ps (acc + k) w1) = Raise e" by simp
    from Cons.IH[OF this] show ?thesis by auto
  next
    case (Raise e1)
    with Cons.prems h have "e1 = e" by simp
    with stdout_handle_pkt_Raise[of dec b p w e] h Raise show ?thesis by simp
  next
    case Hang
    with Cons.prems h show ?thesis by simp
  qed
qed

lemma handle_pkts_internal_Return:
  "fst (handle_pkts_internal dec ps acc w) = Return n \<Longrightarrow>
     list_all (pkt_ok dec (Pipe pp)) ps \<and> n = acc + sum_list (map (decoded_len dec) ps)"
proof (induction ps arbitrary: acc w)
  case Nil
  then show ?case by simp
next
  case (Cons p ps)
  show ?case
  proof (cases "b64decode dec (pkt_binary p)")
    case (Inl e)
    with Cons.prems show ?thesis by simp
  next
    case (Inr bin)
    show ?thesis
    proof (cases "write_packet dec p")
      case None
      with Inr Cons.prems
      have "fst (handle_pkts_internal dec ps (acc + int (length bin)) (log (Pcap_write_packet bin) w)) = Return n"
        by simp
      from Cons.IH[OF this] Inr None show ?thesis
        by (simp add: pkt_ok_def decoded_len_def)
    next
      case (Some e)
      with Inr Cons.prems show ?thesis by (simp split: if_splits)
    qed
  qed
qed

lemma handle_pkts_internal_Raise:
  "fst (handle_pkts_internal dec ps acc w) = Raise e \<Longrightarrow> \<exists>p\<in>set ps. pkt_raises dec (Pipe pp) p e"
proof (induction ps arbitrary: acc w)
  case Nil
  then show ?case by simp
next
  case (Cons p ps)
  show ?case
  proof (cases "b64decode dec (pkt_binary p)")
    case (Inl e1)
    with Cons.prems show ?thesis by (simp add: pkt_raises_def)
  next
    case (Inr bin)
    show ?thesis
    proof (cases "write_packet dec p")
      case None
      with Inr Cons.prems
      have "fst (handle_pkts_internal dec ps (acc + int (length bin)) (log (Pcap_write_packet bin) w)) = Raise e"
        by simp
      from Cons.IH[OF this] show ?thesis by auto
    next
      case (Some e1)
      with Inr Cons.prems show ?thesis by (auto simp: pkt_raises_def split: if_splits)
    qed
  qed
qed

text \<open>
  Claim C9, as amended. For the console writer and for the pipe writer, \<open>handle_pkts\<close>
  either returns or raises. When it returns, the probe was clear (pipe writer), the writer
  got through every packet of the batch, and the value returned is the total of the
  decoded lengths of the packets. When it raises, then either the pipe's probe was not
  clear and the exception is the \<open>STLError\<close> \<open>pipe has been disconnected\<close>, or a
  packet of the batch failed and the exception is the one of \<open>pkt_raises\<close>: an
  \<open>STLError\<close> for a write to the pipe that raised an \<open>Exception\<close>, and otherwise the
  exception of the decoder or renderer itself, passed on as it is.
\<close>

theorem handle_pkts_contract:
  "(case fst (writer_handle_pkts dec wr polled pkts w) of
      Return n \<Rightarrow>
        probe_clear wr polled \<and> list_all (pkt_ok dec wr) pkts \<and>
        n = sum_list (map (decoded_len dec) pkts)
    | Raise e \<Rightarrow>
        (\<not> probe_clear wr polled \<and> e = STLError ''pipe has been disconnected'') \<or>
        (probe_clear wr polled \<and> (\<exists>p\<in>set pkts. pkt_raises dec wr p e))
    | Hang \<Rightarrow> False)"
proof (cases wr)
  case (Stdout b)
  let ?r = "fst (stdout_pkts_loop dec b pkts 0 (log (Call_handle_pkts (length pkts)) w))"
  have eq: "fst (writer_handle_pkts dec wr polled pkts w) = ?r"
    using Stdout by (simp add: stdout_handle_pkts_def case_prod_beta)
  have pc: "probe_clear wr polled" using Stdout by (simp add: probe_clear_def)
  show ?thesis
  proof (cases ?r)
    case (Return n)
    from stdout_pkts_loop_Return[OF Return] eq Return pc Stdout show ?thesis by simp
  next
    case (Raise e)
    from stdout_pkts_loop_Raise[OF Raise] eq Raise pc Stdout show ?thesis by simp
  next
    case Hang
    with stdout_pkts_loop_no_hang[of dec b pkts 0 "log (Call_handle_pkts (length pkts)) w"]
    show ?thesis by simp
  qed
next
  case (Pipe pp)
  show ?thesis
  proof (cases "polled = []")
    case False
    with Pipe show ?thesis
      by (simp add: pipe_handle_pkts_def check_pipe_def probe_clear_def)
  next
    case True
    let ?r = "fst (handle_pkts_internal dec pkts 0 (log (Poll_poll 0) (log (Call_handle_pkts (length pkts)) w)))"
    have eq: "fst (writer_handle_pkts dec wr polled pkts w) = ?r"
      using Pipe True by (simp add: pipe_handle_pkts_def check_pipe_def)
    have pc: "probe_clear wr polled" using Pipe True by (simp add: probe_clear_def)
    show ?thesis
    proof (cases ?r)
      case (Return n)
      from handle_pkts_internal_Return[OF Return, of pp] eq Return pc Pipe show ?thesis by simp
    next
      case (Raise e)
      from handle_pkts_internal_Raise[OF Raise, of pp] eq Raise pc Pipe show ?thesis by simp
    next
      case Hang
      with handle_pkts_internal_no_hang[of dec pkts 0 "log (Poll_poll 0) (log (Call_handle_pkts (length pkts)) w)"]
      show ?thesis by simp
    qed
  qed
qed

lemma broken_pipe_run:
  "fst (writer_handle_pkts broken_pipe_decoder (Pipe open_pipe) [] three_pkts world0)
     = Raise (STLError ''fail to write packets to pipe: Broken pipe'')"
  by (simp add: pipe_handle_pkts_def check_pipe_def three_pkts_def sample_pkt_def broken_pipe_decoder_def)

theorem handle_pkts_contract_witness:
  "fst (writer_handle_pkts broken_pipe_decoder (Pipe open_pipe) [] three_pkts world0)
     = Raise (STLError ''fail to write packets to pipe: Broken pipe'') \<and>
   probe_clear (Pipe open_pipe) [] \<and>
   (\<exists>p\<in>set three_pkts.
      pkt_raises broken_pipe_decoder (Pipe open_pipe) p (STLError ''fail to write packets to pipe: Broken pipe''))"
proof -
  have pc: "probe_clear (Pipe open_pipe) []" by (simp add: probe_clear_def)
  from handle_pkts_contract [where dec = broken_pipe_decoder and wr = "Pipe open_pipe"
      and polled = "[]" and pkts = three_pkts and w = world0]
    broken_pipe_run pc
  show ?thesis by simp
qed

text \<open>
  Claim C9 as stated fails: a packet that cannot be decoded makes \<open>handle_pkts\<close> of
  either writer raise the decoder's exception, which is not an \<open>STLError\<close>.
\<close>

theorem handle_pkts_decode_error_counterexample:
  "fst (writer_handle_pkts rejecting_decoder (Stdout True) [] three_pkts world0)
     = Raise (OtherException ''Incorrect padding'') \<and>
   fst (writer_handle_pkts rejecting_decoder (Pipe open_pipe) [] three_pkts world0)
     = Raise (OtherException ''Incorrect padding'') \<and>
   \<not> is_STLError (OtherException ''Incorrect padding'')"
  by (simp add: stdout_handle_pkts_def stdout_handle_pkt_def pipe_handle_pkts_def check_pipe_def
      three_pkts_def rejecting_decoder_def)

subsection \<open>The construction of the pipe writer\<close>

lemma pipe_init_body_name:
  "pipe_init_body env p w = (r, p1, w1) \<Longrightarrow> fifo_name p1 = fifo_name p"
  by (auto simp: pipe_init_body_def Let_def split: option.splits outcome.splits)

lemma pipe_deinit_called:
  "Call_deinit \<in> set (trace (snd (pipe_deinit env p w)))"
  by (simp add: pipe_deinit_def Let_def split: option.splits)

lemma pipe_deinit_unlinks:
  assumes "os_close env = None" and "os_unlink env = None" and "fifo_name p = Some name" and "name \<noteq> []"
  shows "name \<notin> set (files (snd (pipe_deinit env p w))) \<and> fifo_name (fst (pipe_deinit env p w)) = None \<and>
         fifo (fst (pipe_deinit env p w)) \<in> {None, Some 0} \<and>
         Os_unlink name \<in> set (trace (snd (pipe_deinit env p w)))"
  using assms by (simp add: pipe_deinit_def Let_def split: option.splits)

text \<open>
  Claim C7, as amended. When the construction of the pipe writer fails with an \<open>OSError\<close>
  or is interrupted by the user (\<open>KeyboardInterrupt\<close>) at any step of its \<open>try\<close> block,
  \<open>deinit\<close> is called before the error, turned into an \<open>STLError\<close>, reaches the caller;
  and when \<open>os.close\<close> and \<open>os.unlink\<close> succeed in that \<open>deinit\<close>, the pipe path has been
  unlinked and no file of that name exists afterwards.
\<close>

theorem failed_pipe_construction_unlinks:
  assumes body: "pipe_init_body env \<lparr>fifo = None, fifo_name = Some (mktemp env), is_init = False\<rparr> w
                   = (Raise e0, p1, w1)"
    and handled: "e0 = KeyboardInterrupt \<or> is_OSError e0"
    and name: "mktemp env \<noteq> []"
  shows "\<exists>e p w'. CaptureMonitorWriterPipe_init env w = (Raise e, p, w') \<and> is_STLError e \<and>
           Call_deinit \<in> set (trace w') \<and>
           (os_close (ctor_deinit env) = None \<and> os_unlink (ctor_deinit env) = None \<longrightarrow>
              Os_unlink (mktemp env) \<in> set (trace w') \<and> mktemp env \<notin> set (files w') \<and> fifo_name p = None)"
proof -
  from pipe_init_body_name[OF body] have fn: "fifo_name p1 = Some (mktemp env)" by simp
  obtain p2 w2 where d: "pipe_deinit (ctor_deinit env) p1 w1 = (p2, w2)" by force
  from pipe_deinit_called[of "ctor_deinit env" p1 w1] d have c: "Call_deinit \<in> set (trace w2)" by simp
  have u: "os_close (ctor_deinit env) = None \<and> os_unlink (ctor_deinit env) = None \<longrightarrow>
             Os_unlink (mktemp env) \<in> set (trace w2) \<and> mktemp env \<notin> set (files w2) \<and> fifo_name p2 = None"
    using pipe_deinit_unlinks[of "ctor_deinit env" p1 "mktemp env" w1] fn name d by simp
  from handled show ?thesis
  proof
    assume "e0 = KeyboardInterrupt"
    with body d c u show ?thesis
      by (simp add: CaptureMonitorWriterPipe_init_def)
  next
    assume "is_OSError e0"
    then have "e0 \<noteq> KeyboardInterrupt" by auto
    with \<open>is_OSError e0\<close> body d c u show ?thesis
      by (simp add: CaptureMonitorWriterPipe_init_def)
  qed
qed

lemma pipe_interrupted_body:
  "pipe_init_body pipe_interrupted \<lparr>fifo = None, fifo_name = Some (mktemp pipe_interrupted), is_init = False\<rparr> world0
     = (Raise KeyboardInterrupt,
        \<lparr>fifo = None, fifo_name = Some (mktemp pipe_interrupted), is_init = False\<rparr>,
        snd (snd (pipe_init_body pipe_interrupted
                   \<lparr>fifo = None, fifo_name = Some (mktemp pipe_interrupted), is_init = False\<rparr> world0)))"
  by (simp add: pipe_init_body_def pipe_interrupted_def pipe_connects_def Let_def)

lemma pipe_interrupted_files:
  "mktemp pipe_interrupted \<in> set (files (snd (snd (pipe_init_body pipe_interrupted
      \<lparr>fifo = None, fifo_name = Some (mktemp pipe_interrupted), is_init = False\<rparr> world0))))"
  by (simp add: pipe_init_body_def pipe_interrupted_def pipe_connects_def Let_def world0_def)

theorem failed_pipe_construction_unlinks_witness:
  "mktemp pipe_interrupted \<in> set (files (snd (snd (pipe_init_body pipe_interrupted
      \<lparr>fifo = None, fifo_name = Some (mktemp pipe_interrupted), is_init = False\<rparr> world0)))) \<and>
   mktemp pipe_interrupted \<noteq> [] \<and>
   os_close (ctor_deinit pipe_interrupted) = None \<and> os_unlink (ctor_deinit pipe_interrupted) = None \<and>
   (\<exists>e p w'. CaptureMonitorWriterPipe_init pipe_interrupted world0 = (Raise e, p, w') \<and> is_STLError e \<and>
      Call_deinit \<in> set (trace w') \<and> Os_unlink (mktemp pipe_interrupted) \<in> set (trace w') \<and>
      mktemp pipe_interrupted \<notin> set (files w'))"
proof -
  have n: "mktemp pipe_interrupted \<noteq> []"
    by (simp add: pipe_interrupted_def pipe_connects_def)
  have o: "os_close (ctor_deinit pipe_interrupted) = None \<and> os_unlink (ctor_deinit pipe_interrupted) = None"
    by (simp add: pipe_interrupted_def pipe_connects_def deinit_ok_def)
  from failed_pipe_construction_unlinks [OF pipe_interrupted_body _ n] o pipe_interrupted_files n
  show ?thesis by auto
qed

text \<open>
  Claim C7 as stated fails. A construction that fails, after the pipe has been created and
  opened, with an exception that is neither an \<open>OSError\<close> nor a \<open>KeyboardInterrupt\<close>
  passes both handlers: \<open>deinit\<close> is not called and the pipe file is still there. And in
  a construction that fails with an \<open>OSError\<close>, a failing \<open>os.close\<close> takes \<open>deinit\<close>
  out of its \<open>try\<close> before the unlink, and the pipe file is still there too.
\<close>

theorem failed_pipe_construction_counterexample:
  "fst (CaptureMonitorWriterPipe_init pipe_no_epoll world0)
     = Raise (AttributeError ''module has no attribute EPOLLERR'') \<and>
   Call_deinit \<notin> set (trace (snd (snd (CaptureMonitorWriterPipe_init pipe_no_epoll world0)))) \<and>
   ''/tmp/tmpq1w2e3'' \<in> set (files (snd (snd (CaptureMonitorWriterPipe_init pipe_no_epoll world0)))) \<and>
   fst (CaptureMonitorWriterPipe_init pipe_close_fails world0)
     = Raise (STLError (''failed to create pipe /tmp/tmpq1w2e3'' @ [CHR 0x0A] @ ''Too many open files'')) \<and>
   Call_deinit \<in> set (trace (snd (snd (CaptureMonitorWriterPipe_init pipe_close_fails world0)))) \<and>
   ''/tmp/tmpq1w2e3'' \<in> set (files (snd (snd (CaptureMonitorWriterPipe_init pipe_close_fails world0))))"
  by (simp add: CaptureMonitorWriterPipe_init_def pipe_init_body_def pipe_deinit_def
      pipe_no_epoll_def pipe_close_fails_def pipe_connects_def deinit_ok_def world0_def Let_def)

subsection \<open>Stopping a monitor\<close>

lemma live_threads_Nil [simp]: "live_threads [] = []"
  by (simp add: live_threads_def)

lemma live_threads_Cons [simp]: "live_threads (ev # tr) = thread_step ev (live_threads tr)"
  by (simp add: live_threads_def)

lemma thread_step_other [simp]: "\<not> is_thread_event ev \<Longrightarrow> thread_step ev alive = alive"
  by (cases ev) (simp_all add: thread_step_def is_thread_event_def)

lemma thread_step_start [simp]: "thread_step (Thread_start tid) alive = tid # alive"
  and thread_step_end [simp]: "thread_step (Thread_end tid) alive = removeAll tid alive"
  by (simp_all add: thread_step_def)

lemma stop_capture_calls_Cons [simp]:
  "stop_capture_calls (ev # tr) = (if is_stop_capture ev then ev # stop_capture_calls tr else stop_capture_calls tr)"
  by (simp add: stop_capture_calls_def)

lemma calls_Nil [simp]: "stop_capture_calls [] = []" "deinit_calls [] = []" "stop_runs [] = []"
  by (simp_all add: stop_capture_calls_def deinit_calls_def stop_runs_def)

lemma deinit_calls_Cons [simp]:
  "deinit_calls (ev # tr) = (if is_deinit_call ev then ev # deinit_calls tr else deinit_calls tr)"
  by (simp add: deinit_calls_def)

lemma stop_runs_Cons [simp]:
  "stop_runs (ev # tr) = (if is_stop_call ev then ev # stop_runs tr else stop_runs tr)"
  by (simp add: stop_runs_def)

lemmas event_kinds = is_thread_event_def is_stop_capture_def is_deinit_call_def is_stop_call_def

lemma pipe_deinit_frame:
  "live_threads (trace (snd (pipe_deinit env p w))) = live_threads (trace w) \<and>
   stop_capture_calls (trace (snd (pipe_deinit env p w))) = stop_capture_calls (trace w) \<and>
   stop_runs (trace (snd (pipe_deinit env p w))) = stop_runs (trace w) \<and>
   deinit_calls (trace (snd (pipe_deinit env p w))) = Call_deinit # deinit_calls (trace w) \<and>
   next_tid (snd (pipe_deinit env p w)) = next_tid w"
  by (simp add: pipe_deinit_def Let_def event_kinds split: option.splits)

lemma writer_deinit_frame:
  "live_threads (trace (snd (writer_deinit env wr w))) = live_threads (trace w) \<and>
   stop_capture_calls (trace (snd (writer_deinit env wr w))) = stop_capture_calls (trace w) \<and>
   stop_runs (trace (snd (writer_deinit env wr w))) = stop_runs (trace w) \<and>
   deinit_calls (trace (snd (writer_deinit env wr w))) = Call_deinit # deinit_calls (trace w) \<and>
   next_tid (snd (writer_deinit env wr w)) = next_tid w"
  using pipe_deinit_frame by (cases wr) (simp_all add: event_kinds case_prod_beta)

lemma writer_deinit_unlinks:
  assumes "os_close env = None" and "os_unlink env = None" and "fifo_name p = Some name" and "name \<noteq> []"
  shows "name \<notin> set (files (snd (writer_deinit env (Pipe p) w))) \<and>
         Os_unlink name \<in> set (trace (snd (writer_deinit env (Pipe p) w)))"
  using pipe_deinit_unlinks[OF assms, of w] by (simp add: case_prod_beta)

lemma stop_writer_frame:
  "stop_writer env m w = (m1, w1) \<Longrightarrow>
     live_threads (trace w1) = live_threads (trace w) \<and>
     stop_capture_calls (trace w1) = stop_capture_calls (trace w) \<and>
     stop_runs (trace w1) = stop_runs (trace w) \<and>
     deinit_calls (trace w1) =
       (if m_writer m = None then deinit_calls (trace w) else Call_deinit # deinit_calls (trace w)) \<and>
     next_tid w1 = next_tid w \<and>
     m1 = m\<lparr>m_writer := None\<rparr>"
  using writer_deinit_frame
  by (auto simp: stop_writer_def case_prod_beta split: option.splits)

lemma stop_writer_unlinks:
  assumes "stop_writer env m w = (m1, w1)" and "m_writer m = Some (Pipe p)"
    and "os_close (stop_deinit env) = None" and "os_unlink (stop_deinit env) = None"
    and "fifo_name p = Some name" and "name \<noteq> []"
  shows "name \<notin> set (files w1) \<and> Os_unlink name \<in> set (trace w1)"
  using writer_deinit_unlinks[OF assms(3) assms(4) assms(5) assms(6), of w] assms(1) assms(2)
  by (auto simp: stop_writer_def case_prod_beta)

lemma stop_thread_result:
  "stop_thread env m w = (r, m1, w1) \<Longrightarrow>
     stop_capture_calls (trace w1) = stop_capture_calls (trace w) \<and>
     stop_runs (trace w1) = stop_runs (trace w) \<and>
     deinit_calls (trace w1) = deinit_calls (trace w) \<and>
     next_tid w1 = next_tid w \<and> files w1 = files w \<and>
     m_writer m1 = m_writer m \<and> m_capture_id m1 = m_capture_id m \<and>
     m_pkt_count m1 = m_pkt_count m \<and> m_byte_count m1 = m_byte_count m \<and>
     (r = Return () \<or> r = Hang) \<and>
     (r = Hang \<longleftrightarrow> join_hangs env m w) \<and>
     (r = Hang \<longrightarrow> w1 = w \<and> m_t m1 = m_t m) \<and>
     (r = Return () \<longrightarrow>
        (\<forall>tid. m_t m1 = Some tid \<longrightarrow> tid \<notin> set (live_threads (trace w1))) \<and>
        (\<forall>tid. m_t m = Some tid \<longrightarrow> live_threads (trace w1) = removeAll tid (live_threads (trace w))) \<and>
        (m_t m = None \<longrightarrow> live_threads (trace w1) = live_threads (trace w)) \<and>
        (m_t m1 = None \<or> m_t m1 = m_t m) \<and>
        (\<forall>tid. m_t m = Some tid \<and> tid \<in> set (live_threads (trace w)) \<and> \<not> worker_exited env
              \<longrightarrow> join_returns env \<and> m_t m1 = None \<and> m_active m1 = Some False) \<and>
        (\<forall>tid. m_t m = Some tid \<and> (tid \<notin> set (live_threads (trace w)) \<or> worker_exited env)
              \<longrightarrow> m1 = m))"
  by (auto simp: stop_thread_def is_alive_def join_hangs_def event_kinds split: option.splits if_splits)

lemma stop_remote_result:
  "stop_remote env m w = (r, m1, w1) \<Longrightarrow>
     live_threads (trace w1) = live_threads (trace w) \<and>
     stop_runs (trace w1) = stop_runs (trace w) \<and>
     deinit_calls (trace w1) = deinit_calls (trace w) \<and>
     next_tid w1 = next_tid w \<and> files w1 = files w \<and>
     m1 = m\<lparr>m_capture_id := None\<rparr> \<and>
     stop_capture_calls (trace w1) =
       (if stop_rpc_due env (m_capture_id m)
        then Rpc_stop_capture (m_capture_id m) # stop_capture_calls (trace w)
        else stop_capture_calls (trace w)) \<and>
     r = (if \<not> stop_connected env then Return ()
          else case get_capture_status env of
                 Hang \<Rightarrow> Hang
               | Raise e \<Rightarrow> Raise e
               | Return captures \<Rightarrow>
                   if m_capture_id m \<in> set (map Some captures) then stop_capture env else Return ())"
  by (auto simp: stop_remote_def stop_rpc_due_def Let_def event_kinds split: if_splits outcome.splits)

lemma stop_internal_join_hangs:
  assumes "CaptureMonitor_stop_internal env m w = (r, m', w')" and "join_hangs env m w"
  shows "r = Hang \<and> live_threads (trace w') = live_threads (trace w) \<and> m_t m' = m_t m"
proof -
  obtain r1 m1 w1 where t: "stop_thread env m (log Call_stop w) = (r1, m1, w1)"
    by (metis prod_cases3)
  have "join_hangs env m (log Call_stop w)"
    using assms(2) by (simp add: join_hangs_def event_kinds split: option.splits)
  with stop_thread_result[OF t] have h: "r1 = Hang" "w1 = log Call_stop w" "m_t m1 = m_t m" by simp_all
  from assms(1) t h(1) have "r = Hang \<and> m' = m1 \<and> w' = w1"
    by (simp add: CaptureMonitor_stop_internal_def)
  with h show ?thesis by (simp add: event_kinds)
qed

lemma stop_internal_result:
  assumes "CaptureMonitor_stop_internal env m w = (r, m', w')" and "\<not> join_hangs env m w"
  shows "m_writer m' = None \<and> m_capture_id m' = None \<and>
         m_pkt_count m' = m_pkt_count m \<and> m_byte_count m' = m_byte_count m \<and>
         next_tid w' = next_tid w \<and>
         (\<forall>tid. m_t m' = Some tid \<longrightarrow> tid \<notin> set (live_threads (trace w'))) \<and>
         (\<forall>tid. m_t m = Some tid \<longrightarrow> live_threads (trace w') = removeAll tid (live_threads (trace w))) \<and>
         (m_t m = None \<longrightarrow> live_threads (trace w') = live_threads (trace w)) \<and>
         (m_t m' = None \<or> m_t m' = m_t m) \<and>
         (\<forall>tid. m_t m = Some tid \<and> tid \<in> set (live_threads (trace w)) \<and> \<not> worker_exited env
              \<longrightarrow> join_returns env \<and> m_t m' = None \<and> m_active m' = Some False) \<and>
         (\<forall>tid. m_t m = Some tid \<and> (tid \<notin> set (live_threads (trace w)) \<or> worker_exited env)
              \<longrightarrow> m_t m' = Some tid \<and> m_active m' = m_active m) \<and>
         stop_runs (trace w') = Call_stop # stop_runs (trace w) \<and>
         deinit_calls (trace w') =
           (if m_writer m = None then deinit_calls (trace w) else Call_deinit # deinit_calls (trace w)) \<and>
         stop_capture_calls (trace w') =
           (if stop_rpc_due env (m_capture_id m)
            then Rpc_stop_capture (m_capture_id m) # stop_capture_calls (trace w)
            else stop_capture_calls (trace w)) \<and>
         r = (if \<not> stop_connected env then Return ()
              else case get_capture_status env of
                     Hang \<Rightarrow> Hang
                   | Raise e \<Rightarrow> Raise e
                   | Return captures \<Rightarrow>
                       if m_capture_id m \<in> set (map Some captures) then stop_capture env else Return ())"
proof -
  obtain r1 m1 w1 where t: "stop_thread env m (log Call_stop w) = (r1, m1, w1)"
    by (metis prod_cases3)
  have nj: "\<not> join_hangs env m (log Call_stop w)"
    using assms(2) by (simp add: join_hangs_def event_kinds split: option.splits)
  note T = stop_thread_result[OF t]
  from T nj have r1: "r1 = Return ()" by blast
  obtain m2 w2 where sw: "stop_writer env m1 w1 = (m2, w2)" by force
  note W = stop_writer_frame[OF sw]
  from assms(1) t r1 sw have sr: "stop_remote env m2 w2 = (r, m', w')"
    by (simp add: CaptureMonitor_stop_internal_def)
  from T W have c2: "m_capture_id m2 = m_capture_id m" by simp
  note R = stop_remote_result[OF sr, unfolded c2]
  from T r1 W R show ?thesis
    by (simp add: event_kinds)
qed

lemma stop_internal_unlinks:
  assumes "CaptureMonitor_stop_internal env m w = (r, m', w')" and "\<not> join_hangs env m w"
    and "m_writer m = Some (Pipe p)"
    and "os_close (stop_deinit env) = None" and "os_unlink (stop_deinit env) = None"
    and "fifo_name p = Some name" and "name \<noteq> []"
  shows "name \<notin> set (files w') \<and> Os_unlink name \<in> set (trace w')"
proof -
  obtain r1 m1 w1 where t: "stop_thread env m (log Call_stop w) = (r1, m1, w1)"
    by (metis prod_cases3)
  have nj: "\<not> join_hangs env m (log Call_stop w)"
    using assms(2) by (simp add: join_hangs_def event_kinds split: option.splits)
  note T = stop_thread_result[OF t]
  from T nj have r1: "r1 = Return ()" by blast
  obtain m2 w2 where sw: "stop_writer env m1 w1 = (m2, w2)" by force
  from T assms(3) have "m_writer m1 = Some (Pipe p)" by simp
  from stop_writer_unlinks[OF sw this assms(4) assms(5) assms(6) assms(7)]
  have u: "name \<notin> set (files w2) \<and> Os_unlink name \<in> set (trace w2)" .
  from assms(1) t r1 sw have sr: "stop_remote env m2 w2 = (r, m', w')"
    by (simp add: CaptureMonitor_stop_internal_def)
  then have "files w' = files w2 \<and> (\<exists>evs. trace w' = evs @ trace w2)"
    by (auto simp: stop_remote_def Let_def split: if_splits outcome.splits)
  with u show ?thesis by auto
qed

lemma join_hangs_log [simp]:
  "\<not> is_thread_event ev \<Longrightarrow> join_hangs env m (log ev w) = join_hangs env m w"
  by (simp add: join_hangs_def split: option.splits)

lemma stop_join_hangs:
  assumes "CaptureMonitor_stop env m w = (r, m', w')" and "join_hangs env m w"
  shows "r = Hang \<and> live_threads (trace w') = live_threads (trace w) \<and> m_t m' = m_t m"
proof -
  let ?w0 = "log (Logger_pre_cmd ''Stopping capture monitor'') w"
  obtain r1 m1 w1 where i: "CaptureMonitor_stop_internal env m ?w0 = (r1, m1, w1)"
    by (metis prod_cases3)
  have "join_hangs env m ?w0" using assms(2) by (simp add: event_kinds)
  from stop_internal_join_hangs[OF i this]
  have h: "r1 = Hang" "live_threads (trace w1) = live_threads (trace w)" "m_t m1 = m_t m"
    by (simp_all add: event_kinds)
  from assms(1) i h(1) have "r = Hang \<and> m' = m1 \<and> w' = w1"
    by (simp add: CaptureMonitor_stop_def)
  with h show ?thesis by simp
qed

lemma stop_not_hang:
  "CaptureMonitor_stop env m w = (r, m', w') \<Longrightarrow> r \<noteq> Hang \<Longrightarrow> \<not> join_hangs env m w"
  using stop_join_hangs by blast

lemma stop_rpc_due_None: "\<not> stop_rpc_due env None"
  by (auto simp: stop_rpc_due_def split: outcome.splits)

lemma stop_result:
  assumes "CaptureMonitor_stop env m w = (r, m', w')" and "\<not> join_hangs env m w"
  shows "m_writer m' = None \<and> m_capture_id m' = None \<and>
         m_pkt_count m' = m_pkt_count m \<and> m_byte_count m' = m_byte_count m \<and>
         next_tid w' = next_tid w \<and>
         (\<forall>tid. m_t m' = Some tid \<longrightarrow> tid \<notin> set (live_threads (trace w'))) \<and>
         (\<forall>tid. m_t m = Some tid \<longrightarrow> live_threads (trace w') = removeAll tid (live_threads (trace w))) \<and>
         (m_t m = None \<longrightarrow> live_threads (trace w') = live_threads (trace w)) \<and>
         (m_t m' = None \<or> m_t m' = m_t m) \<and>
         (\<forall>tid. m_t m = Some tid \<and> tid \<in> set (live_threads (trace w)) \<and> \<not> worker_exited env
              \<longrightarrow> join_returns env \<and> m_t m' = None \<and> m_active m' = Some False) \<and>
         (\<forall>tid. m_t m = Some tid \<and> (tid \<notin> set (live_threads (trace w)) \<or> worker_exited env)
              \<longrightarrow> m_t m' = Some tid \<and> m_active m' = m_active m) \<and>
         stop_runs (trace w') = Call_stop # stop_runs (trace w) \<and>
         deinit_calls (trace w') =
           (if m_writer m = None then deinit_calls (trace w) else Call_deinit # deinit_calls (trace w)) \<and>
         stop_capture_calls (trace w') =
           (if stop_rpc_due env (m_capture_id m)
            then Rpc_stop_capture (m_capture_id m) # stop_capture_calls (trace w)
            else stop_capture_calls (trace w)) \<and>
         r = (if \<not> stop_connected env then Return ()
              else case get_capture_status env of
                     Hang \<Rightarrow> Hang
                   | Raise e \<Rightarrow> Raise e
                   | Return captures \<Rightarrow>
                       if m_capture_id m \<in> set (map Some captures) then stop_capture env else Return ())"
proof -
  let ?w0 = "log (Logger_pre_cmd ''Stopping capture monitor'') w"
  obtain r1 m1 w1 where i: "CaptureMonitor_stop_internal env m ?w0 = (r1, m1, w1)"
    by (metis prod_cases3)
  have nj: "\<not> join_hangs env m ?w0" using assms(2) by (simp add: event_kinds)
  from assms(1) i have eq: "r = r1" "m' = m1"
    by (auto simp: CaptureMonitor_stop_def split: outcome.splits if_splits)
  from assms(1) i have w': "w' = w1 \<or> (\<exists>b. w' = log (Logger_post_cmd b) w1)"
    by (auto simp: CaptureMonitor_stop_def split: outcome.splits if_splits)
  have fr: "live_threads (trace ?w0) = live_threads (trace w)"
    "stop_runs (trace ?w0) = stop_runs (trace w)"
    "deinit_calls (trace ?w0) = deinit_calls (trace w)"
    "stop_capture_calls (trace ?w0) = stop_capture_calls (trace w)"
    "next_tid ?w0 = next_tid w"
    by (simp_all add: event_kinds)
  note I = stop_internal_result[OF i nj, unfolded fr]
  from w' show ?thesis
  proof
    assume e: "w' = w1"
    show ?thesis unfolding e eq by (rule I)
  next
    assume "\<exists>b. w' = log (Logger_post_cmd b) w1"
    then obtain b where e: "w' = log (Logger_post_cmd b) w1" by blast
    have fr': "live_threads (trace (log (Logger_post_cmd b) w1)) = live_threads (trace w1)"
      "stop_runs (trace (log (Logger_post_cmd b) w1)) = stop_runs (trace w1)"
      "deinit_calls (trace (log (Logger_post_cmd b) w1)) = deinit_calls (trace w1)"
      "stop_capture_calls (trace (log (Logger_post_cmd b) w1)) = stop_capture_calls (trace w1)"
      "next_tid (log (Logger_post_cmd b) w1) = next_tid w1"
      by (simp_all add: event_kinds)
    show ?thesis unfolding e eq fr' by (rule I)
  qed
qed

lemma stop_unlinks:
  assumes "CaptureMonitor_stop env m w = (r, m', w')" and "\<not> join_hangs env m w"
    and "m_writer m = Some (Pipe p)"
    and "os_close (stop_deinit env) = None" and "os_unlink (stop_deinit env) = None"
    and "fifo_name p = Some name" and "name \<noteq> []"
  shows "name \<notin> set (files w') \<and> Os_unlink name \<in> set (trace w')"
proof -
  let ?w0 = "log (Logger_pre_cmd ''Stopping capture monitor'') w"
  obtain r1 m1 w1 where i: "CaptureMonitor_stop_internal env m ?w0 = (r1, m1, w1)"
    by (metis prod_cases3)
  have nj: "\<not> join_hangs env m ?w0" using assms(2) by (simp add: event_kinds)
  from assms(1) i have w': "w' = w1 \<or> (\<exists>b. w' = log (Logger_post_cmd b) w1)"
    by (auto simp: CaptureMonitor_stop_def split: outcome.splits if_splits)
  from stop_internal_unlinks[OF i nj assms(3) assms(4) assms(5) assms(6) assms(7)] w'
  show ?thesis by auto
qed

text \<open>
  Claim C5, as amended. Take a \<open>stop()\<close> of a monitor whose \<open>join\<close> does not hang. Before
  the remote cleanup, and whatever the remote cleanup then does (return, raise or never
  answer: the outcome of \<open>stop()\<close> is the outcome of the remote cleanup), \<open>stop()\<close>
  \<^item> calls \<open>deinit\<close> of the writer exactly once when the monitor has a writer, and not at
    all when it has none; for a pipe writer whose \<open>os.close\<close> and \<open>os.unlink\<close> succeed the
    pipe file is unlinked; and the monitor's writer is cleared;
  \<^item> clears the stored capture id;
  \<^item> when it finds the worker alive, sets the flag down, joins it (the worker is no longer
    among the live threads) and clears the thread handle;
  \<^item> when the worker had already ended, keeps the thread handle and the flag as they were;
    in either case a handle that is left is not that of a live worker.
  It issues the stop-session RPC, for the id it had stored, exactly when the client is
  connected, the status RPC answers and that id is in its answer; so a \<open>stop()\<close> with no
  stored id, such as a second one, issues none.
\<close>

theorem stop_clears_local_state:
  assumes "CaptureMonitor_stop env m w = (r, m', w')" and "\<not> join_hangs env m w"
  shows "m_writer m' = None \<and> m_capture_id m' = None \<and>
         deinit_calls (trace w') =
           (if m_writer m = None then deinit_calls (trace w) else Call_deinit # deinit_calls (trace w)) \<and>
         (\<forall>p name. m_writer m = Some (Pipe p) \<and> fifo_name p = Some name \<and> name \<noteq> [] \<and>
                   os_close (stop_deinit env) = None \<and> os_unlink (stop_deinit env) = None
              \<longrightarrow> name \<notin> set (files w') \<and> Os_unlink name \<in> set (trace w')) \<and>
         (\<forall>tid. m_t m' = Some tid \<longrightarrow> tid \<notin> set (live_threads (trace w'))) \<and>
         (\<forall>tid. m_t m = Some tid \<and> tid \<in> set (live_threads (trace w)) \<and> \<not> worker_exited env
              \<longrightarrow> join_returns env \<and> m_t m' = None \<and> m_active m' = Some False \<and>
                  live_threads (trace w') = removeAll tid (live_threads (trace w))) \<and>
         (\<forall>tid. m_t m = Some tid \<and> (tid \<notin> set (live_threads (trace w)) \<or> worker_exited env)
              \<longrightarrow> m_t m' = Some tid \<and> m_active m' = m_active m) \<and>
         stop_capture_calls (trace w') =
           (if stop_rpc_due env (m_capture_id m)
            then Rpc_stop_capture (m_capture_id m) # stop_capture_calls (trace w)
            else stop_capture_calls (trace w)) \<and>
         (m_capture_id m = None \<longrightarrow> stop_capture_calls (trace w') = stop_capture_calls (trace w)) \<and>
         r = (if \<not> stop_connected env then Return ()
              else case get_capture_status env of
                     Hang \<Rightarrow> Hang
                   | Raise e \<Rightarrow> Raise e
                   | Return captures \<Rightarrow>
                       if m_capture_id m \<in> set (map Some captures) then stop_capture env else Return ())"
proof -
  note S = stop_result[OF assms]
  have U: "\<forall>p name. m_writer m = Some (Pipe p) \<and> fifo_name p = Some name \<and> name \<noteq> [] \<and>
                   os_close (stop_deinit env) = None \<and> os_unlink (stop_deinit env) = None
              \<longrightarrow> name \<notin> set (files w') \<and> Os_unlink name \<in> set (trace w')"
    using stop_unlinks[OF assms] by blast
  have N: "m_capture_id m = None \<longrightarrow> stop_capture_calls (trace w') = stop_capture_calls (trace w)"
    using S stop_rpc_due_None[of env] by simp
  from S U N show ?thesis by (intro conjI) blast+
qed

lemma started_eq:
  "started = (Return (),
     \<lparr>m_t = Some 0, m_writer = Some (Stdout True), m_capture_id = Some 7, m_start_ts = Some 1000,
      m_active = Some True, m_pkt_count = None, m_byte_count = None,
      m_tx_port_list = [0], m_rx_port_list = [1], m_rate_pps = 100, m_mon_type = ''compact''\<rparr>,
     \<lparr>trace = [Thread_start 0,
               Logger_log ''*** use capture monitor stop to abort capturing... ***'',
               Logger_post_cmd True,
               Logger_pre_cmd ''Starting stdout capture monitor - verbose: low'',
               Rpc_start_capture [0] [1] 100],
      files = [], lock_held = False, next_tid = 1\<rparr>)"
  by (simp add: started_def CaptureMonitor_init_def new_monitor_def CaptureMonitor_start_def
      create_writer_def CaptureMonitorWriterStdout_init_def console_start_def world0_def log_def)

theorem stop_clears_local_state_witness:
  "\<not> join_hangs stop_status_fails pipe_monitor pipe_world \<and>
   m_writer pipe_monitor = Some (Pipe open_pipe) \<and>
   m_t pipe_monitor = Some 0 \<and> 0 \<in> set (live_threads (trace pipe_world)) \<and>
   \<not> worker_exited stop_status_fails \<and>
   ''/tmp/tmpq1w2e3'' \<in> set (files pipe_world) \<and>
   fst (CaptureMonitor_stop stop_status_fails pipe_monitor pipe_world) = Raise (STLError ''RPC timeout'') \<and>
   m_t (fst (snd (CaptureMonitor_stop stop_status_fails pipe_monitor pipe_world))) = None \<and>
   m_writer (fst (snd (CaptureMonitor_stop stop_status_fails pipe_monitor pipe_world))) = None \<and>
   m_capture_id (fst (snd (CaptureMonitor_stop stop_status_fails pipe_monitor pipe_world))) = None \<and>
   deinit_calls (trace (snd (snd (CaptureMonitor_stop stop_status_fails pipe_monitor pipe_world)))) = [Call_deinit] \<and>
   ''/tmp/tmpq1w2e3'' \<notin> set (files (snd (snd (CaptureMonitor_stop stop_status_fails pipe_monitor pipe_world)))) \<and>
   live_threads (trace (snd (snd (CaptureMonitor_stop stop_status_fails pipe_monitor pipe_world)))) = [] \<and>
   stop_capture_calls (trace (snd (snd (CaptureMonitor_stop stop_status_fails pipe_monitor pipe_world)))) = []"
proof -
  let ?s = "CaptureMonitor_stop stop_status_fails pipe_monitor pipe_world"
  have e: "?s = (fst ?s, fst (snd ?s), snd (snd ?s))" by simp
  have nj: "\<not> join_hangs stop_status_fails pipe_monitor pipe_world"
    by (simp add: join_hangs_def pipe_monitor_def stop_status_fails_def stop_running_def)
  have a: "m_writer pipe_monitor = Some (Pipe open_pipe) \<and> m_t pipe_monitor = Some 0 \<and>
           m_capture_id pipe_monitor = Some 7 \<and>
           live_threads (trace pipe_world) = [0] \<and> deinit_calls (trace pipe_world) = [] \<and>
           stop_capture_calls (trace pipe_world) = [] \<and>
           ''/tmp/tmpq1w2e3'' \<in> set (files pipe_world) \<and>
           fifo_name open_pipe = Some ''/tmp/tmpq1w2e3'' \<and>
           \<not> worker_exited stop_status_fails \<and> stop_connected stop_status_fails \<and>
           get_capture_status stop_status_fails = Raise (STLError ''RPC timeout'') \<and>
           os_close (stop_deinit stop_status_fails) = None \<and>
           os_unlink (stop_deinit stop_status_fails) = None"
    by (simp add: pipe_monitor_def pipe_world_def open_pipe_def stop_status_fails_def
        stop_running_def deinit_ok_def event_kinds)
  have d: "\<not> stop_rpc_due stop_status_fails (Some 7)"
    using a by (simp add: stop_rpc_due_def)
  from stop_clears_local_state [OF e nj] a d nj
  show ?thesis by simp
qed

text \<open>
  Claim C5 as stated fails in its first part: \<open>stop()\<close> on a monitor whose worker has
  already ended returns with the thread handle still in place.
\<close>

theorem stop_keeps_handle_counterexample:
  "fst started = Return () \<and> m_t (fst (snd started)) = Some 0 \<and>
   fst (CaptureMonitor_stop stop_worker_gone (fst (snd started)) (snd (snd started))) = Return () \<and>
   m_t (fst (snd (CaptureMonitor_stop stop_worker_gone (fst (snd started)) (snd (snd started))))) = Some 0"
  by (simp add: started_eq CaptureMonitor_stop_def CaptureMonitor_stop_internal_def stop_thread_def
      is_alive_def stop_writer_def stop_remote_def stop_worker_gone_def stop_running_def
      deinit_ok_def is_thread_event_def)

subsection \<open>A construction that fails\<close>

lemma is_alive_frame:
  "next_tid (snd (is_alive exited tid w)) = next_tid w \<and> files (snd (is_alive exited tid w)) = files w"
  by (simp add: is_alive_def)

lemma pipe_init_body_frame:
  "pipe_init_body env p w = (r, p1, w1) \<Longrightarrow>
     live_threads (trace w1) = live_threads (trace w) \<and> next_tid w1 = next_tid w \<and>
     stop_runs (trace w1) = stop_runs (trace w) \<and>
     stop_capture_calls (trace w1) = stop_capture_calls (trace w)"
  by (auto simp: pipe_init_body_def Let_def event_kinds split: option.splits outcome.splits)

lemma pipe_init_frame:
  assumes "CaptureMonitorWriterPipe_init env w = (r, p1, w1)"
  shows "live_threads (trace w1) = live_threads (trace w) \<and> next_tid w1 = next_tid w \<and>
         stop_runs (trace w1) = stop_runs (trace w) \<and>
         stop_capture_calls (trace w1) = stop_capture_calls (trace w)"
proof -
  let ?p0 = "\<lparr>fifo = None, fifo_name = Some (mktemp env), is_init = False\<rparr>"
  obtain r0 p0 w0 where b: "pipe_init_body env ?p0 w = (r0, p0, w0)" by (metis prod_cases3)
  note B = pipe_init_body_frame[OF b]
  note D = pipe_deinit_frame[of "ctor_deinit env" p0 w0]
  from assms b have "w1 = w0 \<or> w1 = log (Logger_post_cmd False) (snd (pipe_deinit (ctor_deinit env) p0 w0))"
    by (auto simp: CaptureMonitorWriterPipe_init_def Let_def case_prod_beta split: outcome.splits if_splits)
  with B D show ?thesis by (auto simp: event_kinds)
qed

lemma create_writer_frame:
  assumes "create_writer env mt w = (r, w1)"
  shows "live_threads (trace w1) = live_threads (trace w) \<and> next_tid w1 = next_tid w \<and>
         stop_runs (trace w1) = stop_runs (trace w) \<and>
         stop_capture_calls (trace w1) = stop_capture_calls (trace w)"
proof -
  obtain r0 p0 w0 where b: "CaptureMonitorWriterPipe_init (start_pipe env) w = (r0, p0, w0)"
    by (metis prod_cases3)
  note P = pipe_init_frame[OF b]
  from assms b have "w1 = w \<or> w1 = w0 \<or> (\<exists>b. w1 = CaptureMonitorWriterStdout_init b w)"
    by (auto simp: create_writer_def split: if_splits outcome.splits)
  with P show ?thesis
    by (auto simp: CaptureMonitorWriterStdout_init_def event_kinds)
qed

lemma start_result:
  assumes "CaptureMonitor_start env m w = (r, m1, w1)"
  shows "m_pkt_count m1 = m_pkt_count m \<and> m_byte_count m1 = m_byte_count m \<and>
         stop_capture_calls (trace w1) = stop_capture_calls (trace w) \<and>
         stop_runs (trace w1) = stop_runs (trace w) \<and>
         (r = Return () \<longrightarrow> m_t m1 = Some (next_tid w) \<and>
                             live_threads (trace w1) = next_tid w # live_threads (trace w)) \<and>
         (r \<noteq> Return () \<longrightarrow> live_threads (trace w1) = live_threads (trace w) \<and>
                                (m_t m1 = m_t m \<or> m_t m1 = Some (next_tid w)) \<and>
                                (m_writer m1 = m_writer m \<or> r = Hang \<or>
                                 (\<exists>e. r = Raise e \<and> thread_start env = Some e)))"
proof -
  let ?w1 = "log (Rpc_start_capture (m_tx_port_list m) (m_rx_port_list m) (m_rate_pps m)) w"
  show ?thesis
  proof (cases "start_capture env")
    case (Return ct)
    obtain cid ts where ct: "ct = (cid, ts)" by force
    let ?m1 = "m\<lparr>m_capture_id := Some cid, m_start_ts := Some ts\<rparr>"
    obtain r2 w2 where c: "create_writer env (m_mon_type ?m1) ?w1 = (r2, w2)" by force
    note C = create_writer_frame[OF c]
    show ?thesis
    proof (cases r2)
      case (Return wr)
      with assms \<open>start_capture env = Return ct\<close> ct c C show ?thesis
        by (auto simp: CaptureMonitor_start_def Let_def event_kinds split: option.splits)
    next
      case (Raise e)
      with assms \<open>start_capture env = Return ct\<close> ct c C show ?thesis
        by (auto simp: CaptureMonitor_start_def Let_def event_kinds)
    next
      case Hang
      with assms \<open>start_capture env = Return ct\<close> ct c C show ?thesis
        by (auto simp: CaptureMonitor_start_def Let_def event_kinds)
    qed
  next
    case (Raise e)
    with assms show ?thesis
      by (auto simp: CaptureMonitor_start_def Let_def event_kinds)
  next
    case Hang
    with assms show ?thesis
      by (auto simp: CaptureMonitor_start_def Let_def event_kinds)
  qed
qed

lemma rollback_result:
  assumes start: "CaptureMonitor_start (init_start env) (new_monitor tx rx rate mt) w = (Raise e, m1, w1)"
    and exc: "is_Exception e"
    and fresh: "next_tid w \<notin> set (live_threads (trace w))"
  shows "\<exists>r m2 w2.
           CaptureMonitor_stop_internal (init_stop env) m1 w1 = (r, m2, w2) \<and>
           CaptureMonitor_init env tx rx rate mt w = ((case r of Return u \<Rightarrow> Raise e | _ \<Rightarrow> r), m2, w2) \<and>
           stop_runs (trace w2) = Call_stop # stop_runs (trace w) \<and>
           live_threads (trace w2) = live_threads (trace w) \<and>
           (\<forall>tid. m_t m2 = Some tid \<longrightarrow> tid \<notin> set (live_threads (trace w2))) \<and>
           m_writer m2 = None \<and> m_capture_id m2 = None \<and>
           (m_writer m1 = None \<or> thread_start (init_start env) = Some e) \<and>
           deinit_calls (trace w2) =
             (if m_writer m1 = None then deinit_calls (trace w1) else Call_deinit # deinit_calls (trace w1)) \<and>
           stop_capture_calls (trace w2) =
             (if stop_rpc_due (init_stop env) (m_capture_id m1)
              then Rpc_stop_capture (m_capture_id m1) # stop_capture_calls (trace w)
              else stop_capture_calls (trace w)) \<and>
           r = (if \<not> stop_connected (init_stop env) then Return ()
                else case get_capture_status (init_stop env) of
                       Hang \<Rightarrow> Hang
                     | Raise e1 \<Rightarrow> Raise e1
                     | Return captures \<Rightarrow>
                         if m_capture_id m1 \<in> set (map Some captures)
                         then stop_capture (init_stop env) else Return ())"
proof -
  note S = start_result[OF start]
  from S have live1: "live_threads (trace w1) = live_threads (trace w)"
    and t1: "m_t m1 = None \<or> m_t m1 = Some (next_tid w)"
    and sc1: "stop_capture_calls (trace w1) = stop_capture_calls (trace w)"
    and sr1: "stop_runs (trace w1) = stop_runs (trace w)"
    and wr1: "m_writer m1 = None \<or> thread_start (init_start env) = Some e"
    by (auto simp: new_monitor_def)
  have nj: "\<not> join_hangs (init_stop env) m1 w1"
    using t1 live1 fresh by (auto simp: join_hangs_def)
  obtain r m2 w2 where st: "CaptureMonitor_stop_internal (init_stop env) m1 w1 = (r, m2, w2)"
    by (metis prod_cases3)
  note I = stop_internal_result[OF st nj, unfolded live1 sc1 sr1]
  have init: "CaptureMonitor_init env tx rx rate mt w = ((case r of Return u \<Rightarrow> Raise e | _ \<Rightarrow> r), m2, w2)"
    using start exc st by (simp add: CaptureMonitor_init_def split: outcome.splits)
  have live2: "live_threads (trace w2) = live_threads (trace w)"
    using I t1 fresh by auto
  from st init live2 I wr1 show ?thesis by blast
qed

text \<open>
  Claim C4, as amended. When \<open>__start\<close> fails in the constructor of a monitor, at the
  start-session RPC, in the construction of the writer or at the spawning of the thread,
  with an exception of class \<open>Exception\<close>, the constructor runs \<open>__stop\<close> once on the
  monitor as \<open>__start\<close> left it. It then raises the same exception again when the remote
  cleanup of \<open>__stop\<close> returns; when that cleanup raises, its exception is the one that
  leaves the constructor, and when it never answers, neither does the constructor. After
  the rollback no worker thread is alive that was not alive before, and the monitor has no
  writer and no capture id. \<open>__stop\<close> calls \<open>deinit\<close> only of a writer that \<open>__start\<close>
  had assigned, which it has only when the spawning of the thread failed; a writer whose
  own construction failed is not assigned and \<open>__stop\<close> does nothing for it. The
  stop-session RPC for the session \<open>__start\<close> had created is issued exactly when the
  client is connected, the status RPC answers and the id is in its answer.
\<close>

theorem failed_construction_rolls_back:
  assumes start: "CaptureMonitor_start (init_start env) (new_monitor tx rx rate mt) w = (Raise e, m1, w1)"
    and exc: "is_Exception e"
    and fresh: "next_tid w \<notin> set (live_threads (trace w))"
  shows "\<exists>r m2 w2.
           CaptureMonitor_stop_internal (init_stop env) m1 w1 = (r, m2, w2) \<and>
           CaptureMonitor_init env tx rx rate mt w = ((case r of Return u \<Rightarrow> Raise e | _ \<Rightarrow> r), m2, w2) \<and>
           stop_runs (trace w2) = Call_stop # stop_runs (trace w) \<and>
           live_threads (trace w2) = live_threads (trace w) \<and>
           (\<forall>tid. m_t m2 = Some tid \<longrightarrow> tid \<notin> set (live_threads (trace w2))) \<and>
           m_writer m2 = None \<and> m_capture_id m2 = None \<and>
           (m_writer m1 = None \<or> thread_start (init_start env) = Some e) \<and>
           deinit_calls (trace w2) =
             (if m_writer m1 = None then deinit_calls (trace w1) else Call_deinit # deinit_calls (trace w1)) \<and>
           stop_capture_calls (trace w2) =
             (if stop_rpc_due (init_stop env) (m_capture_id m1)
              then Rpc_stop_capture (m_capture_id m1) # stop_capture_calls (trace w)
              else stop_capture_calls (trace w)) \<and>
           r = (if \<not> stop_connected (init_stop env) then Return ()
                else case get_capture_status (init_stop env) of
                       Hang \<Rightarrow> Hang
                     | Raise e1 \<Rightarrow> Raise e1
                     | Return captures \<Rightarrow>
                         if m_capture_id m1 \<in> set (map Some captures)
                         then stop_capture (init_stop env) else Return ())"
  using start exc fresh by (rule rollback_result)

lemma spawn_fails_start:
  "CaptureMonitor_start (init_start spawn_fails) (new_monitor [0] [1] 100 ''compact'') world0
     = (Raise (OtherException ''cannot start new thread''),
        fst (snd (CaptureMonitor_start (init_start spawn_fails) (new_monitor [0] [1] 100 ''compact'') world0)),
        snd (snd (CaptureMonitor_start (init_start spawn_fails) (new_monitor [0] [1] 100 ''compact'') world0)))"
  by (simp add: CaptureMonitor_start_def new_monitor_def create_writer_def spawn_fails_def Let_def)

lemma spawn_fails_state:
  "m_capture_id (fst (snd (CaptureMonitor_start (init_start spawn_fails) (new_monitor [0] [1] 100 ''compact'') world0)))
     = Some 7 \<and>
   m_writer (fst (snd (CaptureMonitor_start (init_start spawn_fails) (new_monitor [0] [1] 100 ''compact'') world0)))
     = Some (Stdout True) \<and>
   deinit_calls (trace (snd (snd (CaptureMonitor_start (init_start spawn_fails)
                                    (new_monitor [0] [1] 100 ''compact'') world0)))) = []"
  by (simp add: CaptureMonitor_start_def new_monitor_def create_writer_def spawn_fails_def Let_def
      CaptureMonitorWriterStdout_init_def world0_def event_kinds)

theorem failed_construction_rolls_back_witness:
  "is_Exception (OtherException ''cannot start new thread'') \<and>
   next_tid world0 \<notin> set (live_threads (trace world0)) \<and>
   m_writer (fst (snd (CaptureMonitor_start (init_start spawn_fails) (new_monitor [0] [1] 100 ''compact'') world0)))
     = Some (Stdout True) \<and>
   fst (CaptureMonitor_init spawn_fails [0] [1] 100 ''compact'' world0)
     = Raise (OtherException ''cannot start new thread'') \<and>
   m_writer (fst (snd (CaptureMonitor_init spawn_fails [0] [1] 100 ''compact'' world0))) = None \<and>
   m_capture_id (fst (snd (CaptureMonitor_init spawn_fails [0] [1] 100 ''compact'' world0))) = None \<and>
   live_threads (trace (snd (snd (CaptureMonitor_init spawn_fails [0] [1] 100 ''compact'' world0)))) = [] \<and>
   stop_runs (trace (snd (snd (CaptureMonitor_init spawn_fails [0] [1] 100 ''compact'' world0)))) = [Call_stop] \<and>
   deinit_calls (trace (snd (snd (CaptureMonitor_init spawn_fails [0] [1] 100 ''compact'' world0)))) = [Call_deinit] \<and>
   stop_capture_calls (trace (snd (snd (CaptureMonitor_init spawn_fails [0] [1] 100 ''compact'' world0))))
     = [Rpc_stop_capture (Some 7)]"
proof -
  have exc: "is_Exception (OtherException ''cannot start new thread'')" by simp
  have fresh: "next_tid world0 \<notin> set (live_threads (trace world0))" by (simp add: world0_def)
  have env: "stop_connected (init_stop spawn_fails) \<and>
             get_capture_status (init_stop spawn_fails) = Return [5, 7] \<and>
             stop_capture (init_stop spawn_fails) = Return ()"
    by (simp add: spawn_fails_def stop_running_def)
  then have due: "stop_rpc_due (init_stop spawn_fails) (Some 7)"
    by (simp add: stop_rpc_due_def)
  have w0: "live_threads (trace world0) = [] \<and> stop_capture_calls (trace world0) = [] \<and>
            stop_runs (trace world0) = []"
    by (simp add: world0_def)
  from failed_construction_rolls_back [OF spawn_fails_start exc fresh]
  obtain r m2 w2 where
    init: "CaptureMonitor_init spawn_fails [0] [1] 100 ''compact'' world0
                 = ((case r of Return u \<Rightarrow> Raise (OtherException ''cannot start new thread'') | _ \<Rightarrow> r), m2, w2)"
    and rest: "live_threads (trace w2) = live_threads (trace world0)"
      "stop_runs (trace w2) = Call_stop # stop_runs (trace world0)"
      "m_writer m2 = None" "m_capture_id m2 = None"
      "deinit_calls (trace w2) = [Call_deinit]"
      "stop_capture_calls (trace w2) = Rpc_stop_capture (Some 7) # stop_capture_calls (trace world0)"
      "r = Return ()"
    using env due spawn_fails_state by auto
  with exc fresh w0 spawn_fails_state show ?thesis by simp
qed

lemma pipe_poll_fails_init:
  "fst (CaptureMonitor_init pipe_poll_fails [0] [1] 100 ''pipe'' world0)
     = Raise (AttributeError ''module has no attribute EPOLLERR'') \<and>
   m_writer (fst (snd (CaptureMonitor_init pipe_poll_fails [0] [1] 100 ''pipe'' world0))) = None \<and>
   stop_runs (trace (snd (snd (CaptureMonitor_init pipe_poll_fails [0] [1] 100 ''pipe'' world0)))) = [Call_stop] \<and>
   deinit_calls (trace (snd (snd (CaptureMonitor_init pipe_poll_fails [0] [1] 100 ''pipe'' world0)))) = [] \<and>
   Os_close 3 \<notin> set (trace (snd (snd (CaptureMonitor_init pipe_poll_fails [0] [1] 100 ''pipe'' world0)))) \<and>
   ''/tmp/tmpq1w2e3'' \<in> set (files (snd (snd (CaptureMonitor_init pipe_poll_fails [0] [1] 100 ''pipe'' world0))))"
  by (simp add: CaptureMonitor_init_def new_monitor_def CaptureMonitor_start_def create_writer_def
      CaptureMonitorWriterPipe_init_def pipe_init_body_def
      CaptureMonitor_stop_internal_def stop_thread_def is_alive_def stop_writer_def stop_remote_def
      pipe_poll_fails_def pipe_no_epoll_def pipe_connects_def deinit_ok_def stop_running_def
      world0_def event_kinds Let_def)

lemma rollback_status_fails_init:
  "fst (CaptureMonitor_init rollback_status_fails [0] [1] 100 ''compact'' world0)
     = Raise (STLError ''RPC timeout'') \<and>
   stop_capture_calls (trace (snd (snd (CaptureMonitor_init rollback_status_fails [0] [1] 100 ''compact'' world0)))) = []"
  by (simp add: CaptureMonitor_init_def new_monitor_def CaptureMonitor_start_def create_writer_def
      CaptureMonitorWriterStdout_init_def
      CaptureMonitor_stop_internal_def stop_thread_def is_alive_def stop_writer_def stop_remote_def
      rollback_status_fails_def spawn_fails_def stop_status_fails_def stop_running_def deinit_ok_def
      world0_def event_kinds Let_def)

text \<open>
  Claim C4 as stated fails. A pipe monitor whose writer fails in its constructor with an
  exception that is no \<open>OSError\<close>, after the pipe has been created and opened: \<open>__stop\<close>
  runs, but the writer was never assigned, so no \<open>deinit\<close> is called, the descriptor is
  not closed and the pipe file is still there. And a console monitor whose thread cannot be
  spawned while the status RPC of the rollback fails: the constructor raises the error of
  the RPC, not the one of the spawn, and no stop-session RPC is issued for the session
  that had been created.
\<close>

theorem failed_construction_counterexample:
  "fst (CaptureMonitor_init pipe_poll_fails [0] [1] 100 ''pipe'' world0)
     = Raise (AttributeError ''module has no attribute EPOLLERR'') \<and>
   m_writer (fst (snd (CaptureMonitor_init pipe_poll_fails [0] [1] 100 ''pipe'' world0))) = None \<and>
   stop_runs (trace (snd (snd (CaptureMonitor_init pipe_poll_fails [0] [1] 100 ''pipe'' world0)))) = [Call_stop] \<and>
   deinit_calls (trace (snd (snd (CaptureMonitor_init pipe_poll_fails [0] [1] 100 ''pipe'' world0)))) = [] \<and>
   Os_close 3 \<notin> set (trace (snd (snd (CaptureMonitor_init pipe_poll_fails [0] [1] 100 ''pipe'' world0)))) \<and>
   ''/tmp/tmpq1w2e3'' \<in> set (files (snd (snd (CaptureMonitor_init pipe_poll_fails [0] [1] 100 ''pipe'' world0)))) \<and>
   fst (CaptureMonitor_init rollback_status_fails [0] [1] 100 ''compact'' world0)
     = Raise (STLError ''RPC timeout'') \<and>
   stop_capture_calls (trace (snd (snd (CaptureMonitor_init rollback_status_fails [0] [1] 100 ''compact'' world0)))) = []"
  using pipe_poll_fails_init rollback_status_fails_init by simp

subsection \<open>The status row of a monitor\<close>

lemma get_mon_row_no_handle:
  "m_t m = None \<Longrightarrow> \<exists>msg. get_mon_row exited m w = (Raise (AttributeError msg), w)"
  by (simp add: get_mon_row_def)

lemma get_mon_row_no_counters:
  "m_pkt_count m = None \<or> m_byte_count m = None \<Longrightarrow>
     \<exists>msg w'. get_mon_row exited m w = (Raise (AttributeError msg), w')"
  by (auto simp: get_mon_row_def case_prod_beta split: option.splits)

lemma get_mon_row_defined:
  "m_t m = Some tid \<Longrightarrow> m_pkt_count m = Some pc \<Longrightarrow> m_byte_count m = Some bc \<Longrightarrow>
     \<exists>row w'. get_mon_row exited m w = (Return row, w') \<and> row_id row = m_capture_id m \<and>
              row_pkt_count row = pc \<and> row_byte_count row = bc"
  by (simp add: get_mon_row_def case_prod_beta)

lemma init_returns_no_counters:
  assumes "CaptureMonitor_init env tx rx rate typ w = (Return (), m1, w1)"
  shows "m_pkt_count m1 = None \<and> m_byte_count m1 = None"
proof -
  obtain r0 m0 w0 where s: "CaptureMonitor_start (init_start env) (new_monitor tx rx rate typ) w = (r0, m0, w0)"
    by (metis prod_cases3)
  from assms s have "r0 = Return () \<and> m1 = m0"
    by (cases r0) (auto simp: CaptureMonitor_init_def split: if_splits outcome.splits prod.splits)
  with start_result[OF s] show ?thesis by (simp add: new_monitor_def)
qed

text \<open>
  Claim C10, as amended. \<open>get_mon_row\<close> is partial. It raises an \<open>AttributeError\<close> when
  the thread handle is \<open>None\<close> and when one of the counters has not been assigned; it
  returns a row when the handle and both counters are there. So it raises on a monitor
  that its constructor has just returned, whose worker has not yet set the counters, and it
  raises after a \<open>stop()\<close> that found the worker alive, which clears the handle. (A
  \<open>stop()\<close> that finds the worker already ended keeps the handle, and leaves the counters
  alone in either case.)
\<close>

theorem get_mon_row_partial:
  "(m_t ma = None \<longrightarrow> (\<exists>msg. get_mon_row exited ma wa = (Raise (AttributeError msg), wa))) \<and>
   (m_pkt_count mb = None \<or> m_byte_count mb = None \<longrightarrow>
      (\<exists>msg w'. get_mon_row exited mb wb = (Raise (AttributeError msg), w'))) \<and>
   (m_t md = Some tid' \<and> m_pkt_count md = Some pc \<and> m_byte_count md = Some bc \<longrightarrow>
      (\<exists>row w'. get_mon_row exited md wd = (Return row, w') \<and> row_id row = m_capture_id md \<and>
                row_pkt_count row = pc \<and> row_byte_count row = bc)) \<and>
   (CaptureMonitor_init ienv tx rx rate mt wc = (Return (), mc, wc') \<longrightarrow>
      (\<exists>msg w'. get_mon_row exited mc wc' = (Raise (AttributeError msg), w'))) \<and>
   (CaptureMonitor_stop senv m w = (r, m', w') \<and> r \<noteq> Hang \<and>
    m_t m = Some tid \<and> tid \<in> set (live_threads (trace w)) \<and> \<not> worker_exited senv \<longrightarrow>
      m_pkt_count m' = m_pkt_count m \<and> m_byte_count m' = m_byte_count m \<and>
      (\<exists>msg. get_mon_row exited m' w' = (Raise (AttributeError msg), w')))"
proof -
  have a: "m_t ma = None \<longrightarrow> (\<exists>msg. get_mon_row exited ma wa = (Raise (AttributeError msg), wa))"
    using get_mon_row_no_handle by blast
  have b: "m_pkt_count mb = None \<or> m_byte_count mb = None \<longrightarrow>
      (\<exists>msg w'. get_mon_row exited mb wb = (Raise (AttributeError msg), w'))"
    using get_mon_row_no_counters by blast
  have d: "m_t md = Some tid' \<and> m_pkt_count md = Some pc \<and> m_byte_count md = Some bc \<longrightarrow>
      (\<exists>row w'. get_mon_row exited md wd = (Return row, w') \<and> row_id row = m_capture_id md \<and>
                row_pkt_count row = pc \<and> row_byte_count row = bc)"
    using get_mon_row_defined by blast
  have c: "CaptureMonitor_init ienv tx rx rate mt wc = (Return (), mc, wc') \<longrightarrow>
      (\<exists>msg w'. get_mon_row exited mc wc' = (Raise (AttributeError msg), w'))"
    using init_returns_no_counters get_mon_row_no_counters by blast
  have e: "CaptureMonitor_stop senv m w = (r, m', w') \<and> r \<noteq> Hang \<and>
    m_t m = Some tid \<and> tid \<in> set (live_threads (trace w)) \<and> \<not> worker_exited senv \<longrightarrow>
      m_pkt_count m' = m_pkt_count m \<and> m_byte_count m' = m_byte_count m \<and>
      (\<exists>msg. get_mon_row exited m' w' = (Raise (AttributeError msg), w'))"
  proof
    assume h: "CaptureMonitor_stop senv m w = (r, m', w') \<and> r \<noteq> Hang \<and>
      m_t m = Some tid \<and> tid \<in> set (live_threads (trace w)) \<and> \<not> worker_exited senv"
    then have s: "CaptureMonitor_stop senv m w = (r, m', w')" and nh: "r \<noteq> Hang" by simp_all
    from stop_result[OF s stop_not_hang[OF s nh]] h have "m_t m' = None"
      and "m_pkt_count m' = m_pkt_count m \<and> m_byte_count m' = m_byte_count m" by simp_all
    with get_mon_row_no_handle[of m' exited w']
    show "m_pkt_count m' = m_pkt_count m \<and> m_byte_count m' = m_byte_count m \<and>
      (\<exists>msg. get_mon_row exited m' w' = (Raise (AttributeError msg), w'))" by simp
  qed
  from a b c d e show ?thesis by blast
qed

lemma stop_running_started:
  "fst (CaptureMonitor_stop stop_running (fst (snd started)) (snd (snd started))) = Return () \<and>
   m_t (fst (snd (CaptureMonitor_stop stop_running (fst (snd started)) (snd (snd started))))) = None"
  by (simp add: started_eq CaptureMonitor_stop_def CaptureMonitor_stop_internal_def stop_thread_def
      is_alive_def stop_writer_def stop_remote_def stop_running_def deinit_ok_def is_thread_event_def)

theorem get_mon_row_partial_witness:
  "started = (Return (), fst (snd started), snd (snd started)) \<and>
   m_pkt_count (fst (snd started)) = None \<and>
   (\<exists>msg w'. get_mon_row False (fst (snd started)) (snd (snd started)) = (Raise (AttributeError msg), w')) \<and>
   m_t (fst (snd started)) = Some 0 \<and> 0 \<in> set (live_threads (trace (snd (snd started)))) \<and>
   \<not> worker_exited stop_running \<and>
   fst (CaptureMonitor_stop stop_running (fst (snd started)) (snd (snd started))) = Return () \<and>
   m_t (fst (snd (CaptureMonitor_stop stop_running (fst (snd started)) (snd (snd started))))) = None \<and>
   (\<exists>msg. get_mon_row False (fst (snd (CaptureMonitor_stop stop_running (fst (snd started)) (snd (snd started)))))
                  (snd (snd (CaptureMonitor_stop stop_running (fst (snd started)) (snd (snd started)))))
            = (Raise (AttributeError msg),
               snd (snd (CaptureMonitor_stop stop_running (fst (snd started)) (snd (snd started))))))"
proof -
  let ?s = "CaptureMonitor_stop stop_running (fst (snd started)) (snd (snd started))"
  have i: "CaptureMonitor_init console_start [0] [1] 100 ''compact'' world0
             = (Return (), fst (snd started), snd (snd started))"
    using started_eq by (simp add: started_def)
  have s: "?s = (fst ?s, fst (snd ?s), snd (snd ?s))" by simp
  have f: "m_pkt_count (fst (snd started)) = None \<and> m_t (fst (snd started)) = Some 0 \<and>
           0 \<in> set (live_threads (trace (snd (snd started)))) \<and> \<not> worker_exited stop_running \<and>
           started = (Return (), fst (snd started), snd (snd started))"
    by (simp add: started_eq stop_running_def is_thread_event_def)
  have nh: "fst ?s \<noteq> Hang" using stop_running_started by simp
  from get_mon_row_partial [where ma = "fst (snd ?s)" and wa = "snd (snd ?s)"
      and mb = "fst (snd started)" and wb = "snd (snd started)"
      and ienv = console_start and tx = "[0]" and rx = "[1]" and rate = 100 and mt = "''compact''"
      and wc = world0 and mc = "fst (snd started)" and wc' = "snd (snd started)"
      and senv = stop_running and m = "fst (snd started)" and w = "snd (snd started)"
      and r = "fst ?s" and m' = "fst (snd ?s)" and w' = "snd (snd ?s)" and tid = 0
      and exited = False]
    i s f nh stop_running_started
  show ?thesis by simp
qed

lemma worker_done_eq:
  "fst worker_done = Return () \<and>
   m_t (fst (snd worker_done)) = Some 0 \<and>
   m_pkt_count (fst (snd worker_done)) = Some 3 \<and>
   m_byte_count (fst (snd worker_done)) = Some 12 \<and>
   m_writer (fst (snd worker_done)) = Some (Stdout True) \<and>
   m_capture_id (fst (snd worker_done)) = Some 7 \<and>
   m_tx_port_list (fst (snd worker_done)) = [0] \<and>
   m_rx_port_list (fst (snd worker_done)) = [1] \<and>
   live_threads (trace (snd (snd worker_done))) = [0]"
  by (simp add: worker_done_def started_eq thread_cb_def thread_main_loop_def loop_body_def
      fetch_turn_def failing_fetch_turn_def monitor_sleep_def list_all_iff
      fetch_locked_def fetch_def monitor_unlock_def
      stop_capture_calls_def three_pkts_def sample_pkt_def stdout_handle_pkts_def
      stdout_handle_pkt_def plain_decoder_def add_counters_def is_thread_event_def Let_def)

text \<open>
  Claim C10 as stated fails for a monitor whose worker ended on its own: \<open>stop()\<close> returns
  and \<open>get_mon_row\<close> then returns a row, with the status \<open>DEAD\<close> and the counters the
  worker had reached.
\<close>

theorem get_mon_row_after_stop_counterexample:
  "fst worker_done = Return () \<and>
   fst stopped_dead = Return () \<and>
   fst (get_mon_row True (fst (snd stopped_dead)) (snd (snd stopped_dead)))
     = Return \<lparr>row_id = None, row_status = ''DEAD'', row_pkt_count = 3, row_byte_count = 12,
               row_tx = ''0'', row_rx = ''1''\<rparr>"
proof -
  have s: "fst stopped_dead = Return () \<and>
           m_t (fst (snd stopped_dead)) = Some 0 \<and>
           m_pkt_count (fst (snd stopped_dead)) = Some 3 \<and>
           m_byte_count (fst (snd stopped_dead)) = Some 12 \<and>
           m_capture_id (fst (snd stopped_dead)) = None \<and>
           m_tx_port_list (fst (snd stopped_dead)) = [0] \<and>
           m_rx_port_list (fst (snd stopped_dead)) = [1] \<and>
           live_threads (trace (snd (snd stopped_dead))) = []"
    using worker_done_eq
    by (simp add: stopped_dead_def CaptureMonitor_stop_def CaptureMonitor_stop_internal_def
        stop_thread_def is_alive_def stop_writer_def stop_remote_def stop_worker_gone_def
        stop_running_def deinit_ok_def is_thread_event_def Let_def case_prod_beta)
  then show ?thesis
    using worker_done_eq
    by (simp add: get_mon_row_def is_alive_def port_list_str_def case_prod_beta)
qed

subsection \<open>The manager and its one monitor\<close>

lemma at_most_one_live_length: "at_most_one_live tr \<Longrightarrow> length (live_threads tr) \<le> 1"
  by (cases tr) simp_all

lemma at_most_one_live_other:
  "\<not> is_thread_event ev \<Longrightarrow> at_most_one_live (ev # tr) = at_most_one_live tr"
  using at_most_one_live_length[of tr] by auto

lemma at_most_one_live_end:
  "at_most_one_live (Thread_end tid # tr) = at_most_one_live tr"
proof -
  have "length (removeAll tid (live_threads tr)) \<le> length (live_threads tr)"
    by (simp add: removeAll_filter_not_eq)
  moreover have "at_most_one_live tr \<Longrightarrow> length (live_threads tr) \<le> 1"
    by (rule at_most_one_live_length)
  ultimately have "at_most_one_live tr \<Longrightarrow> length (removeAll tid (live_threads tr)) \<le> 1"
    by linarith
  then show ?thesis by auto
qed

lemma at_most_one_live_start:
  "at_most_one_live (Thread_start tid # tr) = (live_threads tr = [] \<and> at_most_one_live tr)"
  by auto

lemmas amol = at_most_one_live_other at_most_one_live_end at_most_one_live_start

declare at_most_one_live.simps(2) [simp del]

lemma pipe_deinit_amol:
  "at_most_one_live (trace (snd (pipe_deinit env p w))) = at_most_one_live (trace w)"
  by (simp add: pipe_deinit_def Let_def amol is_thread_event_def split: option.splits)

lemma writer_deinit_amol:
  "at_most_one_live (trace (snd (writer_deinit env wr w))) = at_most_one_live (trace w)"
  using pipe_deinit_amol by (cases wr) (simp_all add: amol is_thread_event_def case_prod_beta)

lemma stop_writer_amol:
  "stop_writer env m w = (m1, w1) \<Longrightarrow> at_most_one_live (trace w1) = at_most_one_live (trace w)"
  using writer_deinit_amol
  by (auto simp: stop_writer_def case_prod_beta split: option.splits)

lemma stop_remote_amol:
  "stop_remote env m w = (r, m1, w1) \<Longrightarrow> at_most_one_live (trace w1) = at_most_one_live (trace w)"
  by (auto simp: stop_remote_def Let_def amol is_thread_event_def split: if_splits outcome.splits)

lemma stop_thread_amol:
  "stop_thread env m w = (r, m1, w1) \<Longrightarrow> at_most_one_live (trace w1) = at_most_one_live (trace w)"
  by (auto simp: stop_thread_def is_alive_def amol split: option.splits if_splits)

lemma stop_thread_hang:
  "stop_thread env m w = (Hang, m1, w1) \<Longrightarrow> w1 = w \<and> m_t m1 = m_t m"
  by (auto simp: stop_thread_def is_alive_def split: option.splits if_splits)

lemma stop_internal_amol:
  assumes "CaptureMonitor_stop_internal env m w = (r, m', w')"
  shows "at_most_one_live (trace w') = at_most_one_live (trace w)"
proof -
  obtain r1 m1 w1 where t: "stop_thread env m (log Call_stop w) = (r1, m1, w1)"
    by (metis prod_cases3)
  from stop_thread_amol[OF t] have a1: "at_most_one_live (trace w1) = at_most_one_live (trace w)"
    by (simp add: amol is_thread_event_def)
  obtain m2 w2 where sw: "stop_writer env m1 w1 = (m2, w2)" by force
  obtain r3 m3 w3 where sr: "stop_remote env m2 w2 = (r3, m3, w3)" by (metis prod_cases3)
  from assms t sw sr have "w' = w1 \<or> w' = w3"
    by (cases r1) (auto simp: CaptureMonitor_stop_internal_def)
  with a1 stop_writer_amol[OF sw] stop_remote_amol[OF sr] show ?thesis by auto
qed

lemma stop_amol:
  assumes "CaptureMonitor_stop env m w = (r, m', w')"
  shows "at_most_one_live (trace w') = at_most_one_live (trace w)"
proof -
  let ?w0 = "log (Logger_pre_cmd ''Stopping capture monitor'') w"
  obtain r1 m1 w1 where i: "CaptureMonitor_stop_internal env m ?w0 = (r1, m1, w1)"
    by (metis prod_cases3)
  from assms i have "w' = w1 \<or> (\<exists>b. w' = log (Logger_post_cmd b) w1)"
    by (auto simp: CaptureMonitor_stop_def split: outcome.splits if_splits)
  with stop_internal_amol[OF i] show ?thesis
    by (auto simp: amol is_thread_event_def)
qed

lemma pipe_init_body_amol:
  "pipe_init_body env p w = (r, p1, w1) \<Longrightarrow> at_most_one_live (trace w1) = at_most_one_live (trace w)"
  by (auto simp: pipe_init_body_def Let_def amol is_thread_event_def split: option.splits outcome.splits)

lemma pipe_init_amol:
  assumes "CaptureMonitorWriterPipe_init env w = (r, p1, w1)"
  shows "at_most_one_live (trace w1) = at_most_one_live (trace w)"
proof -
  let ?p0 = "\<lparr>fifo = None, fifo_name = Some (mktemp env), is_init = False\<rparr>"
  obtain r0 p0 w0 where b: "pipe_init_body env ?p0 w = (r0, p0, w0)" by (metis prod_cases3)
  note B = pipe_init_body_amol[OF b]
  note D = pipe_deinit_amol[of "ctor_deinit env" p0 w0]
  from assms b have "w1 = w0 \<or> w1 = log (Logger_post_cmd False) (snd (pipe_deinit (ctor_deinit env) p0 w0))"
    by (auto simp: CaptureMonitorWriterPipe_init_def Let_def case_prod_beta split: outcome.splits if_splits)
  with B D show ?thesis by (auto simp: amol is_thread_event_def)
qed

lemma create_writer_amol:
  assumes "create_writer env mt w = (r, w1)"
  shows "at_most_one_live (trace w1) = at_most_one_live (trace w)"
proof -
  obtain r0 p0 w0 where b: "CaptureMonitorWriterPipe_init (start_pipe env) w = (r0, p0, w0)"
    by (metis prod_cases3)
  note P = pipe_init_amol[OF b]
  from assms b have "w1 = w \<or> w1 = w0 \<or> (\<exists>b. w1 = CaptureMonitorWriterStdout_init b w)"
    by (auto simp: create_writer_def split: if_splits outcome.splits)
  with P show ?thesis
    by (auto simp: CaptureMonitorWriterStdout_init_def amol is_thread_event_def)
qed

lemma start_amol:
  assumes "CaptureMonitor_start env m w = (r, m1, w1)" and "live_threads (trace w) = []"
  shows "at_most_one_live (trace w1) = at_most_one_live (trace w)"
proof -
  let ?w1 = "log (Rpc_start_capture (m_tx_port_list m) (m_rx_port_list m) (m_rate_pps m)) w"
  show ?thesis
  proof (cases "start_capture env")
    case (Return ct)
    obtain cid ts where ct: "ct = (cid, ts)" by force
    let ?m1 = "m\<lparr>m_capture_id := Some cid, m_start_ts := Some ts\<rparr>"
    obtain r2 w2 where c: "create_writer env (m_mon_type ?m1) ?w1 = (r2, w2)" by force
    from create_writer_amol[OF c] have C: "at_most_one_live (trace w2) = at_most_one_live (trace w)"
      by (simp add: amol is_thread_event_def)
    from create_writer_frame[OF c] assms(2) have L: "live_threads (trace w2) = []"
      by (simp add: is_thread_event_def)
    from assms(1) Return ct c C L show ?thesis
      by (cases r2) (auto simp: CaptureMonitor_start_def Let_def amol split: option.splits)
  next
    case (Raise e)
    with assms show ?thesis
      by (auto simp: CaptureMonitor_start_def Let_def amol is_thread_event_def)
  next
    case Hang
    with assms show ?thesis
      by (auto simp: CaptureMonitor_start_def Let_def amol is_thread_event_def)
  qed
qed

lemma init_result:
  assumes init: "CaptureMonitor_init env tx rx rate mt w = (r, m', w')"
    and idle: "live_threads (trace w) = []"
    and one: "at_most_one_live (trace w)"
  shows "at_most_one_live (trace w') \<and>
         (r = Return () \<longrightarrow> (\<exists>tid. m_t m' = Some tid \<and> live_threads (trace w') = [tid])) \<and>
         (r \<noteq> Return () \<longrightarrow> live_threads (trace w') = [])"
proof -
  obtain r0 m0 w0 where s: "CaptureMonitor_start (init_start env) (new_monitor tx rx rate mt) w = (r0, m0, w0)"
    by (metis prod_cases3)
  note S = start_result[OF s]
  from start_amol[OF s idle] one have a0: "at_most_one_live (trace w0)" by simp
  show ?thesis
  proof (cases "\<exists>e. r0 = Raise e \<and> is_Exception e")
    case False
    with init s have "r = r0 \<and> m' = m0 \<and> w' = w0"
      by (cases r0) (auto simp: CaptureMonitor_init_def)
    with S a0 idle show ?thesis by auto
  next
    case True
    then obtain e where e: "r0 = Raise e" "is_Exception e" by blast
    obtain r1 m1 w1 where st: "CaptureMonitor_stop_internal (init_stop env) m0 w0 = (r1, m1, w1)"
      by (metis prod_cases3)
    have fresh: "next_tid w \<notin> set (live_threads (trace w))" using idle by simp
    from rollback_result[OF s[unfolded e(1)] e(2) fresh] st
    have l1: "live_threads (trace w1) = live_threads (trace w)" by auto
    from init s e st have "m' = m1 \<and> w' = w1 \<and> r \<noteq> Return ()"
      by (cases r1) (auto simp: CaptureMonitor_init_def)
    with stop_internal_amol[OF st] a0 l1 idle show ?thesis by simp
  qed
qed

lemma manager_inv_idle:
  "at_most_one_live (trace w) \<Longrightarrow> live_threads (trace w) = [] \<Longrightarrow> manager_inv mgr w"
  by (simp add: manager_inv_def)

lemma manager_stop_result:
  assumes inv: "manager_inv mgr w" and s: "CaptureManager_stop env mgr w = (r, mgr1, w1)"
  shows "manager_inv mgr1 w1 \<and>
         (r \<noteq> Hang \<longrightarrow> live_threads (trace w1) = [] \<and> (r = Return () \<longrightarrow> mgr_monitor mgr1 = None))"
proof (cases "mgr_monitor mgr")
  case None
  with inv s show ?thesis
    by (auto simp: CaptureManager_stop_def manager_inv_def split: list.splits)
next
  case (Some m)
  from inv have one: "at_most_one_live (trace w)" by (simp add: manager_inv_def)
  from inv Some have live: "live_threads (trace w) = [] \<or> (\<exists>tid. m_t m = Some tid \<and> live_threads (trace w) = [tid])"
    by (auto simp: manager_inv_def split: list.splits)
  obtain r0 m1 w0 where st: "CaptureMonitor_stop env m w = (r0, m1, w0)" by (metis prod_cases3)
  from s Some st have eq: "r = r0 \<and> w1 = w0 \<and>
      mgr1 = (if r0 = Return () then mgr\<lparr>mgr_monitor := None\<rparr> else mgr\<lparr>mgr_monitor := Some m1\<rparr>)"
    by (cases r0) (auto simp: CaptureManager_stop_def)
  from stop_amol[OF st] one have one1: "at_most_one_live (trace w0)" by simp
  show ?thesis
  proof (cases "join_hangs env m w")
    case True
    from stop_join_hangs[OF st True]
    have "r0 = Hang \<and> live_threads (trace w0) = live_threads (trace w) \<and> m_t m1 = m_t m" .
    with live one1 eq show ?thesis
      by (auto simp: manager_inv_def)
  next
    case False
    note R = stop_result[OF st False]
    from live R have "live_threads (trace w0) = []" by auto
    with one1 eq show ?thesis
      by (simp add: manager_inv_def)
  qed
qed

lemma parse_monitor_start_result:
  assumes inv: "manager_inv mgr w" and s: "parse_monitor_start env opt mgr w = (r, mgr1, w1)"
  shows "manager_inv mgr1 w1 \<and>
         (r = Return () \<and> \<not> (opt_tx_port_list opt = [] \<and> opt_rx_port_list opt = []) \<longrightarrow>
            (\<exists>m tid. mgr_monitor mgr1 = Some m \<and> m_t m = Some tid \<and> live_threads (trace w1) = [tid]))"
proof (cases "opt_tx_port_list opt = [] \<and> opt_rx_port_list opt = []")
  case True
  with inv s show ?thesis
    by (auto simp: parse_monitor_start_def manager_inv_def amol is_thread_event_def)
next
  case False
  obtain r0 mgr0 w0 where ms: "CaptureManager_stop (cmd_stop env) mgr w = (r0, mgr0, w0)"
    by (metis prod_cases3)
  note M = manager_stop_result[OF inv ms]
  show ?thesis
  proof (cases "r0 = Return ()")
    case nr: False
    with s False ms have "r = r0 \<and> mgr1 = mgr0 \<and> w1 = w0"
      by (cases r0) (auto simp: parse_monitor_start_def Let_def)
    with M nr False show ?thesis by simp
  next
    case True
    with M have idle: "live_threads (trace w0) = []" and none: "mgr_monitor mgr0 = None"
      and one: "at_most_one_live (trace w0)"
      by (simp_all add: manager_inv_def)
    let ?mt = "if opt_verbose opt then ''verbose'' else if opt_pipe opt then ''pipe'' else ''compact''"
    obtain r2 m2 w2 where i: "CaptureMonitor_init (cmd_init env) (opt_tx_port_list opt)
        (opt_rx_port_list opt) 100 ?mt w0 = (r2, m2, w2)"
      by (metis prod_cases3)
    note I = init_result[OF i idle one]
    from s False ms True i have eq: "r = r2 \<and> w1 = w2 \<and>
        mgr1 = (if r2 = Return () then mgr0\<lparr>mgr_monitor := Some m2\<rparr> else mgr0)"
      by (cases r2) (auto simp: parse_monitor_start_def Let_def)
    show ?thesis
    proof (cases "r2 = Return ()")
      case True
      with I obtain tid where "m_t m2 = Some tid" "live_threads (trace w2) = [tid]" by blast
      with I eq True show ?thesis by (simp add: manager_inv_def)
    next
      case False
      with I eq show ?thesis by (simp add: manager_inv_def)
    qed
  qed
qed

lemma parse_clear_result:
  assumes inv: "manager_inv mgr w" and s: "parse_clear env mgr w = (r, mgr1, w1)"
  shows "manager_inv mgr1 w1 \<and>
         (r \<noteq> Hang \<longrightarrow> live_threads (trace w1) = [] \<and> (r = Return () \<longrightarrow> mgr_monitor mgr1 = None))"
proof -
  obtain r0 mgr0 w0 where ms: "CaptureManager_stop (cmd_stop env) mgr w = (r0, mgr0, w0)"
    by (metis prod_cases3)
  note M = manager_stop_result[OF inv ms]
  show ?thesis
  proof (cases "r0 = Return ()")
    case False
    with s ms have "r = r0 \<and> mgr1 = mgr0 \<and> w1 = w0"
      by (cases r0) (auto simp: parse_clear_def)
    with M show ?thesis by simp
  next
    case True
    with s ms have "mgr1 = mgr0 \<and> w1 = log Rpc_remove_all_captures w0"
      by (auto simp: parse_clear_def)
    with M True show ?thesis
      by (auto simp: manager_inv_def amol is_thread_event_def)
  qed
qed

lemma run_cmd_inv:
  assumes inv: "manager_inv mgr w" and rc: "run_cmd c env mgr w = (r, mgr1, w1)"
  shows "manager_inv mgr1 w1"
proof (cases c)
  case (Monitor_start opt)
  with rc parse_monitor_start_result[OF inv, of env opt r mgr1 w1] show ?thesis by simp
next
  case Monitor_stop
  with rc manager_stop_result[OF inv, of "cmd_stop env" r mgr1 w1] show ?thesis
    by (simp add: parse_monitor_stop_def)
next
  case Clear
  with rc parse_clear_result[OF inv, of env r mgr1 w1] show ?thesis by simp
qed

lemma run_cmds_inv:
  "manager_inv mgr w \<Longrightarrow> manager_inv (fst (run_cmds cmds mgr w)) (snd (run_cmds cmds mgr w))"
proof (induction cmds arbitrary: mgr w)
  case Nil
  then show ?case by simp
next
  case (Cons ce cmds)
  obtain c env where ce: "ce = (c, env)" by force
  obtain r mgr1 w1 where rc: "run_cmd c env mgr w = (r, mgr1, w1)" by (metis prod_cases3)
  from run_cmd_inv[OF Cons.prems rc] have inv1: "manager_inv mgr1 w1" .
  show ?case
  proof (cases "r = Hang")
    case True
    with ce rc inv1 show ?thesis by simp
  next
    case False
    with ce rc have "run_cmds (ce # cmds) mgr w = run_cmds cmds mgr1 w1"
      by (cases r) simp_all
    with Cons.IH[OF inv1] show ?thesis by simp
  qed
qed

text \<open>
  Claim C3. The manager holds at most one monitor, and through every sequence of monitor
  start, stop and clear commands, whatever the outside answers and also when commands
  raise, at no instant of the trace are two worker threads alive, and a worker that is
  alive is the one of the manager's current monitor. \<open>parse_monitor_start\<close> stops the
  existing monitor first, so that when it returns with a new monitor, that monitor's
  worker is the only one alive; \<open>parse_monitor_stop\<close> and \<open>parse_clear\<close>, when they come
  back, leave no worker alive, and when they return the manager holds no monitor.
\<close>

theorem at_most_one_active_monitor:
  assumes "manager_inv mgr w"
  shows "at_most_one_live (trace (snd (run_cmds cmds mgr w))) \<and>
         manager_inv (fst (run_cmds cmds mgr w)) (snd (run_cmds cmds mgr w)) \<and>
         (parse_monitor_start env opt mgr w = (Return (), mgr1, w1) \<and>
          \<not> (opt_tx_port_list opt = [] \<and> opt_rx_port_list opt = []) \<longrightarrow>
            (\<exists>m tid. mgr_monitor mgr1 = Some m \<and> m_t m = Some tid \<and> live_threads (trace w1) = [tid])) \<and>
         (parse_monitor_stop env mgr w = (r2, mgr2, w2) \<and> r2 \<noteq> Hang \<longrightarrow>
            live_threads (trace w2) = [] \<and> (r2 = Return () \<longrightarrow> mgr_monitor mgr2 = None)) \<and>
         (parse_clear env mgr w = (r3, mgr3, w3) \<and> r3 \<noteq> Hang \<longrightarrow>
            live_threads (trace w3) = [] \<and> (r3 = Return () \<longrightarrow> mgr_monitor mgr3 = None))"
proof -
  from run_cmds_inv[OF assms, of cmds]
  have a: "manager_inv (fst (run_cmds cmds mgr w)) (snd (run_cmds cmds mgr w))" .
  then have b: "at_most_one_live (trace (snd (run_cmds cmds mgr w)))"
    by (simp add: manager_inv_def)
  have c: "parse_monitor_start env opt mgr w = (Return (), mgr1, w1) \<and>
          \<not> (opt_tx_port_list opt = [] \<and> opt_rx_port_list opt = []) \<longrightarrow>
            (\<exists>m tid. mgr_monitor mgr1 = Some m \<and> m_t m = Some tid \<and> live_threads (trace w1) = [tid])"
    using parse_monitor_start_result[OF assms, of env opt "Return ()" mgr1 w1] by simp
  have d: "parse_monitor_stop env mgr w = (r2, mgr2, w2) \<and> r2 \<noteq> Hang \<longrightarrow>
            live_threads (trace w2) = [] \<and> (r2 = Return () \<longrightarrow> mgr_monitor mgr2 = None)"
    using manager_stop_result[OF assms, of "cmd_stop env" r2 mgr2 w2] by (simp add: parse_monitor_stop_def)
  have e: "parse_clear env mgr w = (r3, mgr3, w3) \<and> r3 \<noteq> Hang \<longrightarrow>
            live_threads (trace w3) = [] \<and> (r3 = Return () \<longrightarrow> mgr_monitor mgr3 = None)"
    using parse_clear_result[OF assms, of env r3 mgr3 w3] by simp
  from a b c d e show ?thesis by simp
qed


lemma session_run:
  "mgr_monitor (fst (run_cmds session \<lparr>mgr_monitor = None\<rparr> world0)) = None \<and>
   live_threads (trace (snd (run_cmds session \<lparr>mgr_monitor = None\<rparr> world0))) = [] \<and>
   filter is_thread_event (trace (snd (run_cmds session \<lparr>mgr_monitor = None\<rparr> world0)))
     = [Thread_end 1, Thread_start 1, Thread_end 0, Thread_start 0]"
  by (simp add: session_def session_env_def tx0_rx1_def parse_monitor_start_def parse_monitor_stop_def
      parse_clear_def CaptureManager_stop_def CaptureMonitor_stop_def CaptureMonitor_stop_internal_def
      stop_thread_def is_alive_def stop_writer_def stop_remote_def stop_running_def deinit_ok_def
      CaptureMonitor_init_def new_monitor_def CaptureMonitor_start_def create_writer_def
      CaptureMonitorWriterStdout_init_def console_start_def world0_def is_thread_event_def Let_def)

theorem at_most_one_active_monitor_witness:
  "manager_inv \<lparr>mgr_monitor = None\<rparr> world0 \<and>
   at_most_one_live (trace (snd (run_cmds session \<lparr>mgr_monitor = None\<rparr> world0))) \<and>
   filter is_thread_event (trace (snd (run_cmds session \<lparr>mgr_monitor = None\<rparr> world0)))
     = [Thread_end 1, Thread_start 1, Thread_end 0, Thread_start 0] \<and>
   mgr_monitor (fst (run_cmds session \<lparr>mgr_monitor = None\<rparr> world0)) = None \<and>
   live_threads (trace (snd (run_cmds session \<lparr>mgr_monitor = None\<rparr> world0))) = []"
proof -
  have i: "manager_inv \<lparr>mgr_monitor = None\<rparr> world0"
    by (simp add: manager_inv_def world0_def)
  from at_most_one_active_monitor [OF i, of session] session_run i
  show ?thesis by simp
qed

end
